theory Spec2Isabelle
  imports Complex_Main
begin

section \<open>Python values and errors\<close>

text \<open>
  The lifecycles of \<^verbatim>\<open>SuperCreateModel.py\<close> are Python classes whose methods mutate
  the instance and may raise. A method is modelled as a function from the state before the
  call to an outcome and the state after it: a raise keeps every assignment made before it.
  Class labels are Python numbers that are only ever compared for equality (the gradient
  lifecycle produces \<^verbatim>\<open>0.0\<close>/\<^verbatim>\<open>1.0\<close>, the fit/predict lifecycle \<^verbatim>\<open>0\<close>/\<^verbatim>\<open>1\<close>); they are
  integers here. Probabilities, thresholds and losses are real numbers.
\<close>

datatype py_error =
    ValueError string
  | IndexError
  | AttributeError string
  | ZeroDivisionError

text \<open>What a call gives back: a normal return with a value, or a raised error.\<close>

datatype 'a outcome = Returned 'a | Raised py_error

text \<open>The values the methods return: \<^verbatim>\<open>None\<close> (no \<^verbatim>\<open>return\<close> statement) or the constant
  \<^verbatim>\<open>NotImplemented\<close>.\<close>

datatype py_ret = PyNone | NotImplemented

section \<open>Decision threshold\<close>

text \<open>\<^verbatim>\<open>torch.sigmoid\<close>: the logistic function.\<close>

definition sigmoid :: "real \<Rightarrow> real" where
  "sigmoid x = 1 / (1 + exp (- x))"

text \<open>
  \<^verbatim>\<open>TorchModel.test\<close>, line 138:
  \<^verbatim>\<open>self.predicted = (torch.sigmoid(self.outputs) >= self.threshold).float()\<close>
\<close>

definition torch_predicted :: "real \<Rightarrow> real list \<Rightarrow> int list" where
  "torch_predicted threshold outputs =
     map (\<lambda>out. if sigmoid out \<ge> threshold then 1 else 0) outputs"

text \<open>
  \<^verbatim>\<open>SklearnModel.test\<close>, line 246:
  \<^verbatim>\<open>self.y_pred = (y_prob >= self.threshold).astype(int)\<close>
\<close>

definition sk_thresholded :: "real \<Rightarrow> real list \<Rightarrow> int list" where
  "sk_thresholded threshold y_prob =
     map (\<lambda>p. if p \<ge> threshold then 1 else 0) y_prob"

text \<open>
  \<^verbatim>\<open>SklearnModel.test\<close>, line 249:
  \<^verbatim>\<open>self.y_pred = np.where(y_raw == 1, 1, 0)\<close>
\<close>

definition sk_where_one :: "int list \<Rightarrow> int list" where
  "sk_where_one y_raw = map (\<lambda>r. if r = 1 then 1 else 0) y_raw"

text \<open>The number of samples classified positive in a vector of predictions.\<close>

definition positives :: "int list \<Rightarrow> nat" where
  "positives y_pred = length (filter (\<lambda>y. y = 1) y_pred)"

section \<open>Confusion matrix and accuracy\<close>

text \<open>
  \<^verbatim>\<open>sklearn.metrics.confusion_matrix(y_true, y_pred)\<close> with no \<^verbatim>\<open>labels\<close> argument, as both
  lifecycles call it: the labels are the sorted distinct values that occur in \<^verbatim>\<open>y_true\<close> or
  \<^verbatim>\<open>y_pred\<close>, and cell \<open>(i, j)\<close> counts the samples whose true label is the \<open>i\<close>-th label
  and whose prediction is the \<open>j\<close>-th. The matrix has one row and one column per label that
  occurs, so it is 2x2 only when exactly two labels occur. Inputs of different lengths are
  rejected with a \<^verbatim>\<open>ValueError\<close>.
\<close>

definition unique_labels :: "int list \<Rightarrow> int list \<Rightarrow> int list" where
  "unique_labels y_true y_pred = sort (remdups (y_true @ y_pred))"

definition cell_count :: "(int \<times> int) list \<Rightarrow> int \<Rightarrow> int \<Rightarrow> nat" where
  "cell_count pairs a p = length (filter (\<lambda>tq. fst tq = a \<and> snd tq = p) pairs)"

definition confusion_matrix :: "int list \<Rightarrow> int list \<Rightarrow> nat list list outcome" where
  "confusion_matrix y_true y_pred =
     (if length y_true \<noteq> length y_pred
      then Raised (ValueError ''Found input variables with inconsistent numbers of samples'')
      else let labels = unique_labels y_true y_pred
           in Returned (map (\<lambda>a. map (\<lambda>p. cell_count (zip y_true y_pred) a p) labels) labels))"

text \<open>\<^verbatim>\<open>cm[i, j]\<close> on a numpy array: an index out of bounds raises \<^verbatim>\<open>IndexError\<close>.\<close>

definition cm_at :: "nat list list \<Rightarrow> nat \<Rightarrow> nat \<Rightarrow> nat outcome" where
  "cm_at c i j =
     (if i < length c \<and> j < length (c ! i) then Returned (c ! i ! j) else Raised IndexError)"

text \<open>\<^verbatim>\<open>cm.sum()\<close>: the sum of all cells.\<close>

definition cm_sum :: "nat list list \<Rightarrow> nat" where
  "cm_sum c = sum_list (map sum_list c)"

text \<open>
  Lines 144 and 252, the same expression in both lifecycles:
  \<^verbatim>\<open>self.accuracy = (self.cm[0, 0] + self.cm[1, 1]) / self.cm.sum()\<close>.
  The two index expressions are evaluated left to right, before the division.
\<close>

definition accuracy_of :: "nat list list \<Rightarrow> real outcome" where
  "accuracy_of c =
     (case cm_at c 0 0 of
        Raised e \<Rightarrow> Raised e
      | Returned tn \<Rightarrow>
          (case cm_at c 1 1 of
             Raised e \<Rightarrow> Raised e
           | Returned tp \<Rightarrow> Returned (real (tn + tp) / real (cm_sum c))))"

section \<open>Collaborators and the world outside the instance\<close>

text \<open>
  The libraries and modules the lifecycles call are parameters of the model, collected in
  one record: the CSV files and the random undersampling behind \<^verbatim>\<open>DatasetReader\<close>, the
  scaler, the clock, the data loader's shuffling, and the operations of the wrapped model
  (the forward pass and one optimisation step of a gradient model; \<^verbatim>\<open>fit\<close>,
  \<^verbatim>\<open>predict_proba\<close> and \<^verbatim>\<open>predict\<close> of a fit/predict model). Random choices take the
  number of the draw, so that two draws may differ.
\<close>

record struct_time =
  tm_year :: nat
  tm_mon :: nat
  tm_mday :: nat
  tm_hour :: nat
  tm_min :: nat
  tm_sec :: nat

record ('x, 'm, 'sc) env =
  read_csv :: "string \<Rightarrow> ('x \<times> int) list"
  undersample_rows :: "nat \<Rightarrow> ('x \<times> int) list \<Rightarrow> ('x \<times> int) list"
  fit_scaler :: "'x list \<Rightarrow> 'sc"
  transform :: "'sc \<Rightarrow> 'x \<Rightarrow> 'x"
  localtime :: "nat \<Rightarrow> struct_time"
  shuffled :: "nat \<Rightarrow> ('x \<times> int) list \<Rightarrow> ('x \<times> int) list"
  forward :: "'m \<Rightarrow> 'x list \<Rightarrow> real list"
  sgd_step :: "'m \<Rightarrow> 'x list \<Rightarrow> int list \<Rightarrow> 'm \<times> real"
  fit :: "'m \<Rightarrow> 'x list \<Rightarrow> int list \<Rightarrow> 'm"
  predict_proba :: "'m \<Rightarrow> 'x list \<Rightarrow> real list list"
  predict :: "'m \<Rightarrow> 'x list \<Rightarrow> int list"

text \<open>The values stored in a checkpoint dictionary.\<close>

datatype ('m, 'sc) ckpt_val =
    CkModel 'm
  | CkNone
  | CkFloat real
  | CkStr string
  | CkScaler 'sc

datatype serializer = TorchSave | JoblibDump

text \<open>
  What the process does outside the instance: random draws made, clock reads made, the data
  every scaler was fitted on, the files written (name, serializer, the dictionary written,
  in key order) and the calls of \<^verbatim>\<open>plotCM\<close> (the matrices and the titles). Printing is
  left out.
\<close>

record ('x, 'm, 'sc) world =
  rng :: nat
  clock :: nat
  fit_log :: "'x list list"
  files :: "(string \<times> serializer \<times> (string \<times> ('m, 'sc) ckpt_val) list) list"
  plots :: "(nat list list list \<times> string list) list"

section \<open>DatasetReader\<close>

record ('x, 'sc) DatasetReader =
  features :: "'x list"
  target :: "int list"
  getScalar :: "'sc"

text \<open>
  Modelled from the spec: the class \<^verbatim>\<open>DatasetReader\<close> (module \<^verbatim>\<open>DatasetReader\<close>, imported
  on line 10) is not among the source files. The spec describes it as: constructed from a
  CSV path, an undersample flag and an optional pre-fitted scaler; it produces a feature
  matrix and a target vector, optionally undersamples the majority class, scales the
  features with a scaler that is fitted on the data when none is passed and reused when
  one is, and has a method returning the fitted or passed-through scaler.
\<close>

definition DatasetReader_new ::
  "('x, 'm, 'sc) env \<Rightarrow> ('x, 'm, 'sc) world \<Rightarrow> string \<Rightarrow> bool \<Rightarrow> 'sc option
     \<Rightarrow> ('x, 'm, 'sc) world \<times> ('x, 'sc) DatasetReader" where
  "DatasetReader_new e w csv_file undersample scalar_arg =
     (let rows = read_csv e csv_file;
          rows1 = (if undersample then undersample_rows e (rng w) rows else rows);
          w1 = (if undersample then w\<lparr>rng := rng w + 1\<rparr> else w);
          sc = (case scalar_arg of None \<Rightarrow> fit_scaler e (map fst rows1) | Some given \<Rightarrow> given);
          w2 = (case scalar_arg of
                  None \<Rightarrow> w1\<lparr>fit_log := fit_log w1 @ [map fst rows1]\<rparr>
                | Some given \<Rightarrow> w1)
      in (w2, \<lparr>features = map (transform e sc) (map fst rows1),
                target = map snd rows1,
                getScalar = sc\<rparr>))"

section \<open>Attributes of a lifecycle instance\<close>

text \<open>
  The attributes that \<^verbatim>\<open>TorchModel\<close> and \<^verbatim>\<open>SklearnModel\<close> both have are the fields of one
  record, which each class extends with its own. An attribute that no constructor assigns
  (a subclass or a later method call does) is an option: \<open>None\<close> is the attribute not being
  there, and reading it raises \<^verbatim>\<open>AttributeError\<close>. \<^verbatim>\<open>SklearnModel.__init__\<close> assigns
  \<^verbatim>\<open>self.model = None\<close>, which is \<open>None\<close> too: the only use that tells the two apart is the
  check in \<^verbatim>\<open>SklearnModel.train\<close>, which an absent attribute never reaches here.
\<close>

record ('x, 'm, 'sc) lifecycle =
  train_file :: string
  train_dataset :: "('x, 'sc) DatasetReader"
  scalar :: 'sc
  test_dataset :: "('x, 'sc) DatasetReader"
  threshold :: real
  model :: "'m option"
  model_type :: "string option"
  titles :: "string list option"
  y_pred :: "int list option"
  cm :: "nat list list option"
  accuracy :: "real option"
  timestamp :: "string option"
  file_name :: "string option"

record ('x, 'm, 'sc) SklearnModel = "('x, 'm, 'sc) lifecycle" +
  test_file :: string
  X_train :: "'x list"
  y_train :: "int list"
  X_test :: "'x list"
  y_test :: "int list"
  supervised :: bool

section \<open>Timestamps and file names\<close>

text \<open>
  \<^verbatim>\<open>time.strftime("%Y%m%d_%H%M%S")\<close> formats the local time: the year in decimal, then
  month, day, hour, minute and second zero-padded to two digits. For the years 1000 to 9999
  the year has four digits.
\<close>

definition digit :: "nat \<Rightarrow> char" where
  "digit d = ''0123456789'' ! (d mod 10)"

fun zpad :: "nat \<Rightarrow> nat \<Rightarrow> string" where
  "zpad 0 n = []"
| "zpad (Suc k) n = zpad k (n div 10) @ [digit n]"

definition valid_tm :: "struct_time \<Rightarrow> bool" where
  "valid_tm t = (1000 \<le> tm_year t \<and> tm_year t \<le> 9999 \<and> 1 \<le> tm_mon t \<and> tm_mon t \<le> 12
     \<and> 1 \<le> tm_mday t \<and> tm_mday t \<le> 31 \<and> tm_hour t \<le> 23 \<and> tm_min t \<le> 59
     \<and> tm_sec t \<le> 61)"

definition strftime :: "struct_time \<Rightarrow> string" where
  "strftime t = zpad 4 (tm_year t) @ zpad 2 (tm_mon t) @ zpad 2 (tm_mday t) @ ''_''
     @ zpad 2 (tm_hour t) @ zpad 2 (tm_min t) @ zpad 2 (tm_sec t)"

text \<open>The shape \<^verbatim>\<open>YYYYMMDD_HHMMSS\<close>: eight digits, an underscore, six digits.\<close>

definition is_digit :: "char \<Rightarrow> bool" where
  "is_digit ch = (ch \<in> set ''0123456789'')"

definition is_timestamp :: "string \<Rightarrow> bool" where
  "is_timestamp st =
     (length st = 15 \<and> list_all is_digit (take 8 st) \<and> st ! 8 = CHR ''_''
      \<and> list_all is_digit (drop 9 st))"

text \<open>The files written between two states of the world, oldest first.\<close>

definition written ::
  "('x, 'm, 'sc) world \<Rightarrow> ('x, 'm, 'sc) world
     \<Rightarrow> (string \<times> serializer \<times> (string \<times> ('m, 'sc) ckpt_val) list) list" where
  "written w w' = drop (length (files w)) (files w')"

section \<open>The fit/predict lifecycle: SklearnModel\<close>

text \<open>\<^verbatim>\<open>SklearnModel.__init__\<close>, lines 221 to 236. \<^verbatim>\<open>model_type\<close> is not assigned.\<close>

definition SklearnModel_init ::
  "('x, 'm, 'sc) env \<Rightarrow> ('x, 'm, 'sc) world \<Rightarrow> string \<Rightarrow> string \<Rightarrow> real
     \<Rightarrow> ('x, 'm, 'sc) world \<times> ('x, 'm, 'sc) SklearnModel" where
  "SklearnModel_init e w train_file_arg test_file_arg threshold_arg =
     (let (w1, trd) = DatasetReader_new e w train_file_arg True None;
          sc = getScalar trd;
          (w2, ted) = DatasetReader_new e w1 test_file_arg False (Some sc)
      in (w2, \<lparr>train_file = train_file_arg,
                train_dataset = trd,
                scalar = sc,
                test_dataset = ted,
                threshold = threshold_arg,
                model = None,
                model_type = None,
                titles = Some [''Model Training''],
                y_pred = None, cm = None, accuracy = None,
                timestamp = None, file_name = None,
                test_file = test_file_arg,
                X_train = features trd,
                y_train = target trd,
                X_test = features ted,
                y_test = target ted,
                supervised = True\<rparr>))"

text \<open>\<^verbatim>\<open>SklearnModel.train\<close>, lines 238 to 241. \<^verbatim>\<open>fit\<close> updates the model in place.\<close>

definition SklearnModel_train ::
  "('x, 'm, 'sc) env \<Rightarrow> ('x, 'm, 'sc) world \<times> ('x, 'm, 'sc) SklearnModel
     \<Rightarrow> py_ret outcome \<times> ('x, 'm, 'sc) world \<times> ('x, 'm, 'sc) SklearnModel" where
  "SklearnModel_train e ws =
     (case ws of (w, s) \<Rightarrow>
        (case model s of
           None \<Rightarrow>
             (Raised (ValueError
                ''Model not defined. Please set self.model in subclass before training.''),
              w, s)
         | Some m \<Rightarrow> (Returned PyNone, w, s\<lparr>model := Some (fit e m (X_train s) (y_train s))\<rparr>)))"

text \<open>\<^verbatim>\<open>proba[:, 1]\<close>: column 1 of a matrix given by its rows.\<close>

definition column1 :: "real list list \<Rightarrow> real list outcome" where
  "column1 rows =
     (if list_all (\<lambda>r. 1 < length r) rows then Returned (map (\<lambda>r. r ! 1) rows)
      else Raised IndexError)"

text \<open>\<^verbatim>\<open>SklearnModel.test\<close>, lines 244 to 249: the predictions, by the kind of model.\<close>

definition sk_predictions ::
  "('x, 'm, 'sc) env \<Rightarrow> ('x, 'm, 'sc) SklearnModel \<Rightarrow> int list outcome" where
  "sk_predictions e s =
     (if supervised s
      then (case model s of
              None \<Rightarrow> Raised (AttributeError ''predict_proba'')
            | Some m \<Rightarrow>
                (case column1 (predict_proba e m (X_test s)) of
                   Raised err \<Rightarrow> Raised err
                 | Returned y_prob \<Rightarrow> Returned (sk_thresholded (threshold s) y_prob)))
      else (case model s of
              None \<Rightarrow> Raised (AttributeError ''predict'')
            | Some m \<Rightarrow> Returned (sk_where_one (predict e m (X_test s)))))"

text \<open>\<^verbatim>\<open>SklearnModel.test\<close>, lines 243 to 252.\<close>

definition SklearnModel_test ::
  "('x, 'm, 'sc) env \<Rightarrow> ('x, 'm, 'sc) world \<times> ('x, 'm, 'sc) SklearnModel
     \<Rightarrow> py_ret outcome \<times> ('x, 'm, 'sc) world \<times> ('x, 'm, 'sc) SklearnModel" where
  "SklearnModel_test e ws =
     (case ws of (w, s) \<Rightarrow>
        (case sk_predictions e s of
           Raised err \<Rightarrow> (Raised err, w, s)
         | Returned yp \<Rightarrow>
             (let s1 = s\<lparr>y_pred := Some yp\<rparr> in
              case confusion_matrix (y_test s1) yp of
                Raised err \<Rightarrow> (Raised err, w, s1)
              | Returned c \<Rightarrow>
                  (let s2 = s1\<lparr>cm := Some c\<rparr> in
                   case accuracy_of c of
                     Raised err \<Rightarrow> (Raised err, w, s2)
                   | Returned a \<Rightarrow> (Returned PyNone, w, s2\<lparr>accuracy := Some a\<rparr>)))))"

text \<open>\<^verbatim>\<open>SklearnModel.commenceTraining\<close>, lines 254 to 260.\<close>

definition SklearnModel_commenceTraining ::
  "('x, 'm, 'sc) env \<Rightarrow> ('x, 'm, 'sc) world \<times> ('x, 'm, 'sc) SklearnModel
     \<Rightarrow> py_ret outcome \<times> ('x, 'm, 'sc) world \<times> ('x, 'm, 'sc) SklearnModel" where
  "SklearnModel_commenceTraining e ws =
     (case SklearnModel_train e ws of
        (Raised err, w1, s1) \<Rightarrow> (Raised err, w1, s1)
      | (Returned _, w1, s1) \<Rightarrow>
          (case SklearnModel_test e (w1, s1) of
             (Raised err, w2, s2) \<Rightarrow> (Raised err, w2, s2)
           | (Returned _, w2, s2) \<Rightarrow>
               (case (accuracy s2, cm s2, titles s2) of
                  (Some a, Some c, Some ts) \<Rightarrow>
                    (Returned PyNone, w2\<lparr>plots := plots w2 @ [([c], ts)]\<rparr>, s2)
                | _ \<Rightarrow> (Raised (AttributeError ''accuracy''), w2, s2))))"

text \<open>
  \<^verbatim>\<open>SklearnModel.saveModel\<close>, lines 262 to 272. The local dictionary \<^verbatim>\<open>to_save\<close> is
  written with \<^verbatim>\<open>joblib.dump\<close>.
\<close>

definition SklearnModel_saveModel ::
  "('x, 'm, 'sc) env \<Rightarrow> ('x, 'm, 'sc) world \<times> ('x, 'm, 'sc) SklearnModel
     \<Rightarrow> py_ret outcome \<times> ('x, 'm, 'sc) world \<times> ('x, 'm, 'sc) SklearnModel" where
  "SklearnModel_saveModel e ws =
     (case ws of (w, s) \<Rightarrow>
        (let stamp = strftime (localtime e (clock w));
             w1 = w\<lparr>clock := clock w + 1\<rparr>;
             s1 = s\<lparr>timestamp := Some stamp\<rparr>
         in case model_type s1 of
              None \<Rightarrow> (Raised (AttributeError ''model_type''), w1, s1)
            | Some tag \<Rightarrow>
                (let name = tag @ ''Model_'' @ stamp @ ''.joblib'';
                     s2 = s1\<lparr>file_name := Some name\<rparr>;
                     to_save = [(''model'', (case model s2 of None \<Rightarrow> CkNone | Some m \<Rightarrow> CkModel m)),
                                (''threshold'', CkFloat (threshold s2)),
                                (''model_type'', CkStr tag),
                                (''scalar'', CkScaler (scalar s2))]
                 in (Returned PyNone, w1\<lparr>files := files w1 @ [(name, JoblibDump, to_save)]\<rparr>, s2))))"

section \<open>The gradient lifecycle: TorchModel\<close>

text \<open>
  The attributes \<^verbatim>\<open>model\<close>, \<^verbatim>\<open>epochs\<close>, \<^verbatim>\<open>model_type\<close> and \<^verbatim>\<open>titles\<close> are assigned by a
  concrete subclass, not by \<^verbatim>\<open>TorchModel\<close>. The loss function, the optimizer and the device
  come with the model: \<open>sgd_step\<close> is one forward pass, loss, backward pass and optimizer
  step on a batch, and gives the updated model and \<^verbatim>\<open>loss.item()\<close>. The data loaders are
  not attributes here: iterating one is \<open>batches\<close> of the dataset it was built on, after
  a shuffle for the training loader. The attributes that hold the values of the last batch
  (\<^verbatim>\<open>pred\<close>, \<^verbatim>\<open>loss\<close>, \<^verbatim>\<open>outputs\<close>, \<^verbatim>\<open>predicted\<close>) are left out.
\<close>

record ('x, 'm, 'sc) TorchModel = "('x, 'm, 'sc) lifecycle" +
  batch_size :: int
  epochs :: "int option"
  running_loss :: "real option"
  train_loss :: "real option"
  cms :: "nat list list list option"
  to_save :: "(string \<times> ('m, 'sc) ckpt_val) list option"

text \<open>
  Iterating a \<^verbatim>\<open>DataLoader\<close> with \<^verbatim>\<open>batch_size = n\<close>: consecutive batches of \<open>n\<close> samples,
  the last one shorter when the samples do not divide evenly.
\<close>

function batches :: "nat \<Rightarrow> 'a list \<Rightarrow> 'a list list" where
  "batches n xs = (if n = 0 \<or> xs = [] then [] else take n xs # batches n (drop n xs))"
  by pat_completeness auto
termination
  by (relation "measure (\<lambda>(n, xs). length xs)") auto

declare batches.simps [simp del]

text \<open>
  \<^verbatim>\<open>TorchModel.__init__\<close>, lines 72 to 84. \<^verbatim>\<open>DataLoader\<close> rejects a batch size that is not
  positive with a \<^verbatim>\<open>ValueError\<close>, on line 78, after the training set has been read.
\<close>

definition TorchModel_init ::
  "('x, 'm, 'sc) env \<Rightarrow> ('x, 'm, 'sc) world \<Rightarrow> string \<Rightarrow> string \<Rightarrow> int \<Rightarrow> real
     \<Rightarrow> ('x, 'm, 'sc) world \<times> ('x, 'm, 'sc) TorchModel outcome" where
  "TorchModel_init e w train_file_arg test_file_arg batch_size_arg threshold_arg =
     (let (w1, trd) = DatasetReader_new e w train_file_arg True None
      in if batch_size_arg \<le> 0
         then (w1, Raised (ValueError ''batch_size should be a positive integer value''))
         else
           (let sc = getScalar trd;
                (w2, ted) = DatasetReader_new e w1 test_file_arg False (Some sc)
            in (w2, Returned
                  \<lparr>train_file = train_file_arg,
                   train_dataset = trd,
                   scalar = sc,
                   test_dataset = ted,
                   threshold = threshold_arg,
                   model = None,
                   model_type = None,
                   titles = None,
                   y_pred = None, cm = None, accuracy = None,
                   timestamp = None, file_name = None,
                   batch_size = batch_size_arg,
                   epochs = None,
                   running_loss = None, train_loss = None,
                   cms = None, to_save = None\<rparr>)))"

text \<open>\<^verbatim>\<open>TorchModel.initModel\<close>, lines 94 to 98: \<^verbatim>\<open>return NotImplemented\<close>.\<close>

definition TorchModel_initModel ::
  "('x, 'm, 'sc) world \<times> ('x, 'm, 'sc) TorchModel
     \<Rightarrow> py_ret outcome \<times> ('x, 'm, 'sc) world \<times> ('x, 'm, 'sc) TorchModel" where
  "TorchModel_initModel ws = (case ws of (w, s) \<Rightarrow> (Returned NotImplemented, w, s))"

text \<open>The loop of \<^verbatim>\<open>TorchModel.train\<close>, lines 114 to 125, over the batches.\<close>

fun train_batches ::
  "('x, 'm, 'sc) env \<Rightarrow> ('x \<times> int) list list \<Rightarrow> 'm \<times> real \<Rightarrow> 'm \<times> real" where
  "train_batches e [] (m, loss_sum) = (m, loss_sum)"
| "train_batches e (b # rest) (m, loss_sum) =
     (case sgd_step e m (map fst b) (map snd b) of
        (m1, loss) \<Rightarrow> train_batches e rest (m1, loss_sum + loss))"

text \<open>
  \<^verbatim>\<open>TorchModel.train\<close>, lines 110 to 127. The division on line 127 is a Python float by
  the integer \<^verbatim>\<open>len(self.train_loader)\<close>, which raises when there is no batch.
\<close>

definition TorchModel_train ::
  "('x, 'm, 'sc) env \<Rightarrow> ('x, 'm, 'sc) world \<times> ('x, 'm, 'sc) TorchModel
     \<Rightarrow> py_ret outcome \<times> ('x, 'm, 'sc) world \<times> ('x, 'm, 'sc) TorchModel" where
  "TorchModel_train e ws =
     (case ws of (w, s) \<Rightarrow>
        (case model s of
           None \<Rightarrow> (Raised (AttributeError ''model''), w, s)
         | Some m \<Rightarrow>
             (let s1 = s\<lparr>running_loss := Some 0\<rparr>;
                  samples = shuffled e (rng w)
                    (zip (features (train_dataset s1)) (target (train_dataset s1)));
                  w1 = w\<lparr>rng := rng w + 1\<rparr>;
                  bs = batches (nat (batch_size s1)) samples
              in case train_batches e bs (m, 0) of
                   (m1, loss_sum) \<Rightarrow>
                     (let s2 = s1\<lparr>model := Some m1, running_loss := Some loss_sum\<rparr>
                      in if length bs = 0 then (Raised ZeroDivisionError, w1, s2)
                         else (Returned PyNone, w1,
                               s2\<lparr>train_loss := Some (loss_sum / real (length bs))\<rparr>)))))"

text \<open>The loop of \<^verbatim>\<open>TorchModel.test\<close>, lines 134 to 140, which extends \<^verbatim>\<open>self.y_pred\<close>.\<close>

fun test_batches ::
  "('x, 'm, 'sc) env \<Rightarrow> 'm \<Rightarrow> real \<Rightarrow> 'x list list \<Rightarrow> int list \<Rightarrow> int list" where
  "test_batches e m thr [] acc = acc"
| "test_batches e m thr (X # rest) acc =
     test_batches e m thr rest (acc @ torch_predicted thr (forward e m X))"

text \<open>\<^verbatim>\<open>TorchModel.test\<close>, lines 129 to 144. The test loader does not shuffle.\<close>

definition TorchModel_test ::
  "('x, 'm, 'sc) env \<Rightarrow> ('x, 'm, 'sc) world \<times> ('x, 'm, 'sc) TorchModel
     \<Rightarrow> py_ret outcome \<times> ('x, 'm, 'sc) world \<times> ('x, 'm, 'sc) TorchModel" where
  "TorchModel_test e ws =
     (case ws of (w, s) \<Rightarrow>
        (case model s of
           None \<Rightarrow> (Raised (AttributeError ''model''), w, s)
         | Some m \<Rightarrow>
             (let yp = test_batches e m (threshold s)
                         (batches (nat (batch_size s)) (features (test_dataset s))) [];
                  s1 = s\<lparr>y_pred := Some yp\<rparr>
              in case confusion_matrix (target (test_dataset s1)) yp of
                   Raised err \<Rightarrow> (Raised err, w, s1)
                 | Returned c \<Rightarrow>
                     (let s2 = s1\<lparr>cm := Some c\<rparr> in
                      case accuracy_of c of
                        Raised err \<Rightarrow> (Raised err, w, s2)
                      | Returned a \<Rightarrow> (Returned PyNone, w, s2\<lparr>accuracy := Some a\<rparr>)))))"

text \<open>
  \<^verbatim>\<open>TorchModel.saveModel\<close>, lines 161 to 172. The dictionary is written with
  \<^verbatim>\<open>torch.save\<close>.
\<close>

definition TorchModel_saveModel ::
  "('x, 'm, 'sc) env \<Rightarrow> ('x, 'm, 'sc) world \<times> ('x, 'm, 'sc) TorchModel
     \<Rightarrow> py_ret outcome \<times> ('x, 'm, 'sc) world \<times> ('x, 'm, 'sc) TorchModel" where
  "TorchModel_saveModel e ws =
     (case ws of (w, s) \<Rightarrow>
        (let stamp = strftime (localtime e (clock w));
             w1 = w\<lparr>clock := clock w + 1\<rparr>;
             s1 = s\<lparr>timestamp := Some stamp\<rparr>
         in case model_type s1 of
              None \<Rightarrow> (Raised (AttributeError ''model_type''), w1, s1)
            | Some tag \<Rightarrow>
                (let name = tag @ ''Model_'' @ stamp @ ''.pth'';
                     s2 = s1\<lparr>file_name := Some name\<rparr>
                 in case model s2 of
                      None \<Rightarrow> (Raised (AttributeError ''model''), w1, s2)
                    | Some m \<Rightarrow>
                        (let d = [(''model'', CkModel m),
                                  (''threshold'', CkFloat (threshold s2)),
                                  (''model_type'', CkStr ''PyTorch''),
                                  (''scalar'', CkScaler (scalar s2))];
                             s3 = s2\<lparr>to_save := Some d\<rparr>
                         in (Returned PyNone,
                             w1\<lparr>files := files w1 @ [(name, TorchSave, d)]\<rparr>, s3)))))"

text \<open>
  The training set that line 152,
  \<^verbatim>\<open>DatasetReader(csv_file = self.train_file, undersample=True, scalar = self.scalar)\<close>,
  builds when the random draw is the \<open>r\<close>-th: the world matters only through the draw.
\<close>

definition resampled ::
  "('x, 'm, 'sc) env \<Rightarrow> ('x, 'm, 'sc) TorchModel \<Rightarrow> nat \<Rightarrow> ('x, 'sc) DatasetReader" where
  "resampled e s r =
     snd (DatasetReader_new e \<lparr>rng = r, clock = 0, fit_log = [], files = [], plots = []\<rparr>
            (train_file s) True (Some (scalar s)))"

text \<open>One iteration of the loop of \<^verbatim>\<open>TorchModel.commenceTraining\<close>, lines 149 to 157.\<close>

definition epoch_body ::
  "('x, 'm, 'sc) env \<Rightarrow> ('x, 'm, 'sc) world \<times> ('x, 'm, 'sc) TorchModel
     \<Rightarrow> py_ret outcome \<times> ('x, 'm, 'sc) world \<times> ('x, 'm, 'sc) TorchModel" where
  "epoch_body e ws =
     (case TorchModel_train e ws of
        (Raised err, w1, s1) \<Rightarrow> (Raised err, w1, s1)
      | (Returned _, w1, s1) \<Rightarrow>
          (case DatasetReader_new e w1 (train_file s1) True (Some (scalar s1)) of
             (w2, ds) \<Rightarrow>
               (case TorchModel_test e (w2, s1\<lparr>train_dataset := ds\<rparr>) of
                  (Raised err, w3, s3) \<Rightarrow> (Raised err, w3, s3)
                | (Returned _, w3, s3) \<Rightarrow>
                    (case TorchModel_saveModel e (w3, s3) of
                       (Raised err, w4, s4) \<Rightarrow> (Raised err, w4, s4)
                     | (Returned _, w4, s4) \<Rightarrow>
                         (case (cms s4, cm s4) of
                            (Some recorded, Some c) \<Rightarrow>
                              (Returned PyNone, w4, s4\<lparr>cms := Some (recorded @ [c])\<rparr>)
                          | _ \<Rightarrow> (Raised (AttributeError ''cms''), w4, s4))))))"

text \<open>
  The attributes that the constructor or the subclass assigns and that no method of
  \<^verbatim>\<open>TorchModel\<close> assigns again.
\<close>

definition fixed_part ::
  "('x, 'm, 'sc) TorchModel
     \<Rightarrow> string \<times> 'sc \<times> ('x, 'sc) DatasetReader \<times> real \<times> int \<times> string option
         \<times> string list option \<times> int option" where
  "fixed_part s =
     (train_file s, scalar s, test_dataset s, threshold s, batch_size s, model_type s,
      titles s, epochs s)"

text \<open>\<^verbatim>\<open>for t in range(self.epochs)\<close>: the iterations that remain.\<close>

fun epoch_loop ::
  "('x, 'm, 'sc) env \<Rightarrow> nat \<Rightarrow> ('x, 'm, 'sc) world \<times> ('x, 'm, 'sc) TorchModel
     \<Rightarrow> py_ret outcome \<times> ('x, 'm, 'sc) world \<times> ('x, 'm, 'sc) TorchModel" where
  "epoch_loop e 0 ws = (Returned PyNone, ws)"
| "epoch_loop e (Suc n) ws =
     (case epoch_body e ws of
        (Raised err, ws1) \<Rightarrow> (Raised err, ws1)
      | (Returned _, ws1) \<Rightarrow> epoch_loop e n ws1)"

text \<open>
  \<^verbatim>\<open>TorchModel.commenceTraining\<close>, lines 146 to 159. \<^verbatim>\<open>range\<close> of a negative number is
  empty. The call of \<^verbatim>\<open>plotCM\<close> is recorded with its arguments.
\<close>

definition TorchModel_commenceTraining ::
  "('x, 'm, 'sc) env \<Rightarrow> ('x, 'm, 'sc) world \<times> ('x, 'm, 'sc) TorchModel
     \<Rightarrow> py_ret outcome \<times> ('x, 'm, 'sc) world \<times> ('x, 'm, 'sc) TorchModel" where
  "TorchModel_commenceTraining e ws =
     (case ws of (w, s) \<Rightarrow>
        (let s0 = s\<lparr>cms := Some []\<rparr> in
         case epochs s0 of
           None \<Rightarrow> (Raised (AttributeError ''epochs''), w, s0)
         | Some n \<Rightarrow>
             (case epoch_loop e (nat n) (w, s0) of
                (Raised err, w1, s1) \<Rightarrow> (Raised err, w1, s1)
              | (Returned _, w1, s1) \<Rightarrow>
                  (case (cms s1, titles s1) of
                     (Some recorded, Some ts) \<Rightarrow>
                       (Returned PyNone, w1\<lparr>plots := plots w1 @ [(recorded, ts)]\<rparr>, s1)
                   | _ \<Rightarrow> (Raised (AttributeError ''titles''), w1, s1)))))"

section \<open>The command-line entry point\<close>

text \<open>
  The subclass \<^verbatim>\<open>RandomForestModel\<close> that \<^verbatim>\<open>main\<close> defines, lines 289 to 300: the base
  constructor, then the model type, the model (the unfitted classifier \<open>rf\<close>) and the titles.
\<close>

definition RandomForestModel_init ::
  "('x, 'm, 'sc) env \<Rightarrow> ('x, 'm, 'sc) world \<Rightarrow> 'm \<Rightarrow> string \<Rightarrow> string \<Rightarrow> real
     \<Rightarrow> ('x, 'm, 'sc) world \<times> ('x, 'm, 'sc) SklearnModel" where
  "RandomForestModel_init e w rf train_file_arg test_file_arg threshold_arg =
     (case SklearnModel_init e w train_file_arg test_file_arg threshold_arg of
        (w1, s) \<Rightarrow>
          (w1, s\<lparr>model_type := Some ''RandomForest'',
                 model := Some rf,
                 titles := Some [''Random Forest Confusion Matrix'']\<rparr>))"

section \<open>A small concrete run\<close>

text \<open>
  Concrete collaborators, on which the functions above can be evaluated. A feature row is
  a number, the scaler is the number of rows it was fitted on and is added to each row,
  the \<open>k\<close>-th undersampling drops the first \<open>k\<close> rows, a model is the list of batches it
  was trained on, every raw output is \<open>0\<close> (so every probability is one half), and the
  raw label of the unsupervised model is \<open>1\<close> for an even row and \<open>-1\<close> for an odd one.
\<close>

definition demo_env :: "(nat, nat list list, nat) env" where
  "demo_env =
     \<lparr>read_csv = (\<lambda>f. if f = ''train.csv'' then [(1, 0), (2, 1), (3, 0)]
                       else if f = ''negatives.csv'' then [(5, 0), (6, 0)]
                       else [(5, 0), (6, 1)]),
      undersample_rows = (\<lambda>k rows. drop k rows),
      fit_scaler = (\<lambda>xs. length xs),
      transform = (\<lambda>sc x. x + sc),
      localtime = (\<lambda>k. \<lparr>tm_year = 2025, tm_mon = 5, tm_mday = 3,
                           tm_hour = 2, tm_min = 13, tm_sec = 50 + k\<rparr>),
      shuffled = (\<lambda>k samples. rev samples),
      forward = (\<lambda>m X. map (\<lambda>x. 0) X),
      sgd_step = (\<lambda>m X y. (m @ [X], 1)),
      fit = (\<lambda>m X y. m @ [X]),
      predict_proba = (\<lambda>m X. map (\<lambda>x. [1 / 2, 1 / 2]) X),
      predict = (\<lambda>m X. map (\<lambda>x. if even x then 1 else - 1) X)\<rparr>"

definition demo_world :: "(nat, nat list list, nat) world" where
  "demo_world = \<lparr>rng = 0, clock = 0, fit_log = [], files = [], plots = []\<rparr>"

text \<open>A fit/predict instance as \<^verbatim>\<open>main\<close> builds it, and the world after its construction.\<close>

definition demo_sk_world :: "(nat, nat list list, nat) world" where
  "demo_sk_world =
     fst (RandomForestModel_init demo_env demo_world [] ''train.csv'' ''test.csv'' (1 / 2))"

definition demo_sk :: "(nat, nat list list, nat) SklearnModel" where
  "demo_sk =
     snd (RandomForestModel_init demo_env demo_world [] ''train.csv'' ''test.csv'' (1 / 2))"

text \<open>
  A gradient instance: the base constructor, then the attributes a subclass assigns.
\<close>

definition configured ::
  "'m \<Rightarrow> int \<Rightarrow> string \<Rightarrow> string list \<Rightarrow> ('x, 'm, 'sc) TorchModel \<Rightarrow> ('x, 'm, 'sc) TorchModel" where
  "configured m n tag ts s =
     s\<lparr>model := Some m, epochs := Some n, model_type := Some tag, titles := Some ts\<rparr>"

definition demo_torch_base :: "string \<Rightarrow> real \<Rightarrow> (nat, nat list list, nat) TorchModel" where
  "demo_torch_base test_file_arg threshold_arg =
     (case snd (TorchModel_init demo_env demo_world ''train.csv'' test_file_arg 2 threshold_arg) of
        Returned s \<Rightarrow> s)"

definition demo_torch_world :: "(nat, nat list list, nat) world" where
  "demo_torch_world = fst (TorchModel_init demo_env demo_world ''train.csv'' ''test.csv'' 2 (1 / 2))"

definition demo_torch :: "(nat, nat list list, nat) TorchModel" where
  "demo_torch = configured [] 1 ''NeuralNetwork'' [''Epoch 1''] (demo_torch_base ''test.csv'' (1 / 2))"

text \<open>
  The same two instances on a test file without a positive row, with the threshold at three
  quarters: every label is \<open>0\<close> and, the probabilities being one half, every prediction
  is \<open>0\<close>.
\<close>

definition demo_torch_neg :: "(nat, nat list list, nat) TorchModel" where
  "demo_torch_neg =
     configured [] 1 ''NeuralNetwork'' [''Epoch 1''] (demo_torch_base ''negatives.csv'' (3 / 4))"

definition demo_sk_neg :: "(nat, nat list list, nat) SklearnModel" where
  "demo_sk_neg =
     snd (RandomForestModel_init demo_env demo_world [] ''train.csv'' ''negatives.csv'' (3 / 4))"

text \<open>A fit/predict instance as the base constructor leaves it, with no model.\<close>

definition demo_sk_base :: "(nat, nat list list, nat) SklearnModel" where
  "demo_sk_base = snd (SklearnModel_init demo_env demo_world ''train.csv'' ''test.csv'' (1 / 2))"


section \<open>Theorems\<close>

subsection \<open>Batches\<close>

lemma batches_Nil: "batches n [] = []"
  by (simp add: batches.simps)

lemma batches_zero: "batches 0 xs = []"
  by (simp add: batches.simps)

lemma batches_Cons:
  "0 < n \<Longrightarrow> batches n (x # xs) = take n (x # xs) # batches n (drop n (x # xs))"
  by (subst batches.simps) simp

lemma concat_batches: "0 < n \<Longrightarrow> concat (batches n xs) = xs"
proof (induction n xs rule: batches.induct)
  case (1 n xs)
  show ?case
  proof (cases "xs = []")
    case True
    then show ?thesis by (simp add: batches_Nil)
  next
    case False
    with 1 have "concat (batches n (drop n xs)) = drop n xs" by simp
    moreover have "batches n xs = take n xs # batches n (drop n xs)"
      using False 1(2) by (subst batches.simps) simp
    ultimately show ?thesis by simp
  qed
qed

subsection \<open>Threshold\<close>

lemma positives_mono_aux:
  assumes "\<And>x. x \<in> set xs \<Longrightarrow> P x \<Longrightarrow> Q x"
  shows "length (filter P xs) \<le> length (filter Q xs)"
  using assms
proof (induction xs)
  case Nil
  then show ?case by simp
next
  case (Cons x xs)
  then show ?case by (cases "P x") auto
qed

lemma positives_torch:
  "positives (torch_predicted t outs) = length (filter (\<lambda>out. sigmoid out \<ge> t) outs)"
  by (induction outs) (simp_all add: positives_def torch_predicted_def)

lemma positives_sk:
  "positives (sk_thresholded t ps) = length (filter (\<lambda>p. p \<ge> t) ps)"
  by (induction ps) (simp_all add: positives_def sk_thresholded_def)

text \<open>
  C8. For a fixed vector of predicted probabilities and thresholds \<open>t1 \<le> t2\<close>, the number of
  samples classified positive under \<open>t2\<close> is at most the number classified positive under
  \<open>t1\<close>, in the gradient lifecycle's thresholding (of the sigmoid of the raw outputs) and in
  the fit/predict lifecycle's thresholding (of the positive-class probabilities).
\<close>

theorem threshold_monotone:
  assumes "t1 \<le> t2"
  shows "positives (torch_predicted t2 outputs) \<le> positives (torch_predicted t1 outputs)
       \<and> positives (sk_thresholded t2 y_prob) \<le> positives (sk_thresholded t1 y_prob)"
proof
  show "positives (torch_predicted t2 outputs) \<le> positives (torch_predicted t1 outputs)"
    unfolding positives_torch using assms by (intro positives_mono_aux) linarith
  show "positives (sk_thresholded t2 y_prob) \<le> positives (sk_thresholded t1 y_prob)"
    unfolding positives_sk using assms by (intro positives_mono_aux) linarith
qed

lemma sigmoid_zero: "sigmoid 0 = 1 / 2"
  by (simp add: sigmoid_def)

theorem threshold_monotone_witness:
  "(1 / 4 :: real) \<le> 3 / 4
   \<and> positives (torch_predicted (3 / 4) [0, 0]) \<le> positives (torch_predicted (1 / 4) [0, 0])
   \<and> positives (sk_thresholded (3 / 4) [1 / 2, 9 / 10])
        \<le> positives (sk_thresholded (1 / 4) [1 / 2, 9 / 10])"
  using threshold_monotone [of "1 / 4" "3 / 4" "[0, 0]" "[1 / 2, 9 / 10]"] by simp

subsection \<open>The confusion matrix counts every sample once\<close>

lemma cell_count_Cons:
  "cell_count (tq # ps) a p = cell_count ps a p + (if fst tq = a \<and> snd tq = p then 1 else 0)"
  by (simp add: cell_count_def)

lemma sum_list_indicator:
  assumes "distinct ls" "x \<in> set ls"
  shows "sum_list (map (\<lambda>p. if x = p then (1::nat) else 0) ls) = 1"
  using assms by (induction ls) auto

lemma sum_list_indicator_row:
  assumes "distinct ls" "q \<in> set ls"
  shows "sum_list (map (\<lambda>p. if c \<and> q = p then (1::nat) else 0) ls) = (if c then 1 else 0)"
  using sum_list_indicator [OF assms] by (cases c) simp_all

lemma cells_total:
  assumes "distinct ls" "\<And>tq. tq \<in> set ps \<Longrightarrow> fst tq \<in> set ls \<and> snd tq \<in> set ls"
  shows "sum_list (map (\<lambda>a. sum_list (map (\<lambda>p. cell_count ps a p) ls)) ls) = length ps"
  using assms(2)
proof (induction ps)
  case Nil
  then show ?case by (simp add: cell_count_def)
next
  case (Cons tq ps)
  have in_ls: "fst tq \<in> set ls" "snd tq \<in> set ls" using Cons.prems by auto
  have row: "\<And>a. sum_list (map (\<lambda>p. cell_count (tq # ps) a p) ls)
      = sum_list (map (\<lambda>p. cell_count ps a p) ls) + (if fst tq = a then 1 else 0)"
    using sum_list_indicator_row [OF assms(1) in_ls(2)]
    by (simp add: cell_count_Cons sum_list_addf)
  have "sum_list (map (\<lambda>a. sum_list (map (\<lambda>p. cell_count (tq # ps) a p) ls)) ls)
      = sum_list (map (\<lambda>a. sum_list (map (\<lambda>p. cell_count ps a p) ls)) ls)
        + sum_list (map (\<lambda>a. if fst tq = a then (1::nat) else 0) ls)"
    by (simp add: row sum_list_addf)
  also have "\<dots> = length ps + 1"
    using Cons.IH Cons.prems sum_list_indicator [OF assms(1) in_ls(1)] by simp
  finally show ?case by simp
qed

lemma set_unique_labels: "set (unique_labels yt yp) = set yt \<union> set yp"
  by (simp add: unique_labels_def)

lemma distinct_unique_labels: "distinct (unique_labels yt yp)"
  by (simp add: unique_labels_def)

lemma sorted_unique_labels: "sorted (unique_labels yt yp)"
  by (simp add: unique_labels_def)

lemma confusion_matrix_sum:
  assumes "confusion_matrix yt yp = Returned c"
  shows "cm_sum c = length yt"
proof -
  have len: "length yt = length yp" and
    c: "c = map (\<lambda>a. map (\<lambda>p. cell_count (zip yt yp) a p) (unique_labels yt yp)) (unique_labels yt yp)"
    using assms by (auto simp: confusion_matrix_def Let_def split: if_splits)
  have "\<And>tq. tq \<in> set (zip yt yp) \<Longrightarrow>
      fst tq \<in> set (unique_labels yt yp) \<and> snd tq \<in> set (unique_labels yt yp)"
    by (auto simp: set_unique_labels dest: set_zip_leftD set_zip_rightD)
  from cells_total [OF distinct_unique_labels this]
  show ?thesis using len by (simp add: c cm_sum_def comp_def)
qed

lemma binary_labels:
  assumes "set yt \<union> set yp \<subseteq> {0, 1}"
  shows "unique_labels yt yp \<in> {[], [0], [1], [0, 1]}"
proof -
  let ?ls = "unique_labels yt yp"
  have s: "set ?ls \<subseteq> {0, 1}" using assms by (simp add: set_unique_labels)
  have d: "distinct ?ls" "sorted ?ls"
    by (rule distinct_unique_labels, rule sorted_unique_labels)
  show ?thesis
  proof (cases ?ls)
    case Nil
    then show ?thesis by simp
  next
    case (Cons a r)
    note c1 = Cons
    show ?thesis
    proof (cases r)
      case Nil
      then show ?thesis using c1 s by auto
    next
      case (Cons b r2)
      then have "a < b" "a \<in> {0,1}" "b \<in> {0,1}" using c1 s d by auto
      then have ab: "a = 0" "b = 1" by auto
      have "r2 = []"
      proof (cases r2)
        case Nil then show ?thesis .
      next
        case (Cons x r3)
        then have "x \<in> {0,1}" "b < x" using c1 \<open>r = b # r2\<close> s d by auto
        then show ?thesis using ab by auto
      qed
      then show ?thesis using c1 Cons ab by simp
    qed
  qed
qed

subsection \<open>Accuracy of a binary evaluation\<close>

lemma confusion_matrix_labels:
  assumes "confusion_matrix yt yp = Returned c"
  shows "c = map (\<lambda>a. map (\<lambda>p. cell_count (zip yt yp) a p) (unique_labels yt yp))
               (unique_labels yt yp)"
  using assms by (auto simp: confusion_matrix_def Let_def split: if_splits)

lemma accuracy_of_two:
  "accuracy_of [[tn, fp], [fn, tp]] = Returned (real (tn + tp) / real (tn + fp + fn + tp))"
  by (simp add: accuracy_of_def cm_at_def cm_sum_def)

lemma accuracy_of_small:
  "length c < 2 \<Longrightarrow> accuracy_of c = Raised IndexError"
  by (cases c) (auto simp: accuracy_of_def cm_at_def split: outcome.splits)

lemma binary_accuracy_iff:
  assumes bin: "set yt \<union> set yp \<subseteq> {0, 1}"
    and c: "confusion_matrix yt yp = Returned c"
  shows "(\<exists>a. accuracy_of c = Returned a) \<longleftrightarrow> 0 \<in> set yt \<union> set yp \<and> 1 \<in> set yt \<union> set yp"
    and "(\<forall>a. accuracy_of c \<noteq> Returned a) \<longrightarrow> accuracy_of c = Raised IndexError"
proof -
  let ?ls = "unique_labels yt yp"
  have cc: "c = map (\<lambda>a. map (\<lambda>p. cell_count (zip yt yp) a p) ?ls) ?ls"
    by (rule confusion_matrix_labels [OF c])
  have set_ls: "set ?ls = set yt \<union> set yp" by (rule set_unique_labels)
  consider "?ls = []" | "?ls = [0]" | "?ls = [1]" | "?ls = [0, 1]"
    using binary_labels [OF bin] by auto
  then have "((\<exists>a. accuracy_of c = Returned a) \<longleftrightarrow> 0 \<in> set ?ls \<and> 1 \<in> set ?ls)
      \<and> ((\<forall>a. accuracy_of c \<noteq> Returned a) \<longrightarrow> accuracy_of c = Raised IndexError)"
  proof cases
    case 1
    then have "accuracy_of c = Raised IndexError" using cc by (simp add: accuracy_of_small)
    then show ?thesis using 1 by simp
  next
    case 2
    then have "accuracy_of c = Raised IndexError" using cc by (simp add: accuracy_of_small)
    then show ?thesis using 2 by simp
  next
    case 3
    then have "accuracy_of c = Raised IndexError" using cc by (simp add: accuracy_of_small)
    then show ?thesis using 3 by simp
  next
    case 4
    then have "\<exists>a. accuracy_of c = Returned a" using cc by (simp add: accuracy_of_two)
    then show ?thesis using 4 by auto
  qed
  then show "(\<exists>a. accuracy_of c = Returned a) \<longleftrightarrow> 0 \<in> set yt \<union> set yp \<and> 1 \<in> set yt \<union> set yp"
    and "(\<forall>a. accuracy_of c \<noteq> Returned a) \<longrightarrow> accuracy_of c = Raised IndexError"
    unfolding set_ls by blast+
qed

lemma divide_le_1_real_aux: "(x::real) \<le> y \<Longrightarrow> 0 \<le> x \<Longrightarrow> x / y \<le> 1"
  by (cases "y = 0") (simp_all add: divide_le_eq_1)

lemma binary_evaluation:
  assumes bin: "set yt \<union> set yp \<subseteq> {0, 1}"
    and c: "confusion_matrix yt yp = Returned c"
    and a: "accuracy_of c = Returned a"
  shows "\<exists>tn fp fn tp. c = [[tn, fp], [fn, tp]] \<and> tn + fp + fn + tp = length yt
           \<and> a = real (tn + tp) / real (tn + fp + fn + tp) \<and> 0 \<le> a \<and> a \<le> 1"
proof -
  let ?ls = "unique_labels yt yp"
  have cc: "c = map (\<lambda>a. map (\<lambda>p. cell_count (zip yt yp) a p) ?ls) ?ls"
    by (rule confusion_matrix_labels [OF c])
  have "\<not> length c < 2" using a accuracy_of_small [of c] by auto
  then have "length ?ls \<ge> 2" using cc by simp
  then have ls: "?ls = [0, 1]" using binary_labels [OF bin] by auto
  obtain tn fp fn tp where shape: "c = [[tn, fp], [fn, tp]]"
    using cc unfolding ls by simp
  have total: "tn + fp + fn + tp = length yt"
    using confusion_matrix_sum [OF c] by (simp add: shape cm_sum_def)
  have acc: "a = real (tn + tp) / real (tn + fp + fn + tp)"
    using a by (simp add: shape accuracy_of_two)
  have "0 \<le> a" unfolding acc by simp
  moreover have "a \<le> 1" unfolding acc
    by (rule divide_le_1_real_aux) simp_all
  ultimately show ?thesis using shape total acc by blast
qed

lemma set_torch_predicted: "set (torch_predicted t outs) \<subseteq> {0, 1}"
  by (auto simp: torch_predicted_def)

lemma set_sk_thresholded: "set (sk_thresholded t ps) \<subseteq> {0, 1}"
  by (auto simp: sk_thresholded_def)

lemma set_sk_where_one: "set (sk_where_one rs) \<subseteq> {0, 1}"
  by (auto simp: sk_where_one_def)

lemma test_batches_eq:
  "test_batches e m thr bs acc
     = acc @ torch_predicted thr (concat (map (forward e m) bs))"
  by (induction bs arbitrary: acc) (simp_all add: torch_predicted_def)

lemma set_sk_predictions:
  "sk_predictions e k = Returned yp \<Longrightarrow> set yp \<subseteq> {0, 1}"
  by (auto simp: sk_predictions_def sk_thresholded_def sk_where_one_def
      split: if_splits option.splits outcome.splits)

lemma TorchModel_test_returned:
  assumes "TorchModel_test e (w, s) = (Returned r, w', s')"
  shows "\<exists>m yp c a. model s = Some m
     \<and> yp = torch_predicted (threshold s)
              (concat (map (forward e m) (batches (nat (batch_size s)) (features (test_dataset s)))))
     \<and> confusion_matrix (target (test_dataset s)) yp = Returned c
     \<and> accuracy_of c = Returned a
     \<and> s' = s\<lparr>y_pred := Some yp, cm := Some c, accuracy := Some a\<rparr>
     \<and> w' = w \<and> r = PyNone"
proof (cases "model s")
  case None
  then show ?thesis using assms by (simp add: TorchModel_test_def)
next
  case (Some m)
  let ?yp = "torch_predicted (threshold s)
      (concat (map (forward e m) (batches (nat (batch_size s)) (features (test_dataset s)))))"
  show ?thesis
  proof (cases "confusion_matrix (target (test_dataset s)) ?yp")
    case (Raised err)
    then show ?thesis using assms Some
      by (simp add: TorchModel_test_def Let_def test_batches_eq)
  next
    case (Returned c)
    note c = Returned
    show ?thesis
    proof (cases "accuracy_of c")
      case (Raised err)
      then show ?thesis using assms Some c
        by (simp add: TorchModel_test_def Let_def test_batches_eq)
    next
      case (Returned a)
      then show ?thesis using assms Some c
        by (simp add: TorchModel_test_def Let_def test_batches_eq)
    qed
  qed
qed

lemma SklearnModel_test_returned:
  assumes "SklearnModel_test e (w, k) = (Returned r, w', k')"
  shows "\<exists>yp c a. sk_predictions e k = Returned yp
     \<and> confusion_matrix (y_test k) yp = Returned c
     \<and> accuracy_of c = Returned a
     \<and> k' = k\<lparr>y_pred := Some yp, cm := Some c, accuracy := Some a\<rparr>
     \<and> w' = w \<and> r = PyNone"
proof (cases "sk_predictions e k")
  case (Raised err)
  then show ?thesis using assms by (simp add: SklearnModel_test_def)
next
  case (Returned yp)
  note yp = Returned
  show ?thesis
  proof (cases "confusion_matrix (y_test k) yp")
    case (Raised err)
    then show ?thesis using assms yp by (simp add: SklearnModel_test_def Let_def)
  next
    case (Returned c)
    note c = Returned
    show ?thesis
    proof (cases "accuracy_of c")
      case (Raised err)
      then show ?thesis using assms yp c by (simp add: SklearnModel_test_def Let_def)
    next
      case (Returned a)
      then show ?thesis using assms yp c by (simp add: SklearnModel_test_def Let_def)
    qed
  qed
qed

subsection \<open>Evaluation runs\<close>

text \<open>
  C1, as amended. For every evaluation run of either lifecycle (\<^verbatim>\<open>TorchModel.test\<close>,
  \<^verbatim>\<open>SklearnModel.test\<close>) on binary test labels that returns normally, the confusion matrix
  is 2x2, its four cells add up to the number of evaluated test samples, and the accuracy is
  the sum of the diagonal cells \<open>cm[0,0] + cm[1,1]\<close> divided by that total, and lies between
  0 and 1.
\<close>

theorem evaluation_confusion_matrix:
  fixes s s' :: "('x, 'm, 'sc) TorchModel" and k k' :: "('x, 'm, 'sc) SklearnModel"
  shows "(set (target (test_dataset s)) \<subseteq> {0, 1}
           \<and> TorchModel_test e (w, s) = (Returned r, w', s')
          \<longrightarrow> (\<exists>tn fp fn tp.
                 cm s' = Some [[tn, fp], [fn, tp]]
               \<and> tn + fp + fn + tp = length (target (test_dataset s))
               \<and> accuracy s' = Some (real (tn + tp) / real (tn + fp + fn + tp))
               \<and> 0 \<le> real (tn + tp) / real (tn + fp + fn + tp)
               \<and> real (tn + tp) / real (tn + fp + fn + tp) \<le> 1))
       \<and> (set (y_test k) \<subseteq> {0, 1}
           \<and> SklearnModel_test e (v, k) = (Returned r2, v', k')
          \<longrightarrow> (\<exists>tn fp fn tp.
                 cm k' = Some [[tn, fp], [fn, tp]]
               \<and> tn + fp + fn + tp = length (y_test k)
               \<and> accuracy k' = Some (real (tn + tp) / real (tn + fp + fn + tp))
               \<and> 0 \<le> real (tn + tp) / real (tn + fp + fn + tp)
               \<and> real (tn + tp) / real (tn + fp + fn + tp) \<le> 1))"
proof (intro conjI impI; elim conjE)
  assume bin: "set (target (test_dataset s)) \<subseteq> {0, 1}"
    and run: "TorchModel_test e (w, s) = (Returned r, w', s')"
  from TorchModel_test_returned [OF run] obtain m yp c a where
    yp: "yp = torch_predicted (threshold s)
              (concat (map (forward e m) (batches (nat (batch_size s)) (features (test_dataset s)))))"
    and c: "confusion_matrix (target (test_dataset s)) yp = Returned c"
    and a: "accuracy_of c = Returned a"
    and s': "s' = s\<lparr>y_pred := Some yp, cm := Some c, accuracy := Some a\<rparr>"
    by blast
  have "set (target (test_dataset s)) \<union> set yp \<subseteq> {0, 1}"
    using bin set_torch_predicted unfolding yp by blast
  from binary_evaluation [OF this c a] show "\<exists>tn fp fn tp.
                 cm s' = Some [[tn, fp], [fn, tp]]
               \<and> tn + fp + fn + tp = length (target (test_dataset s))
               \<and> accuracy s' = Some (real (tn + tp) / real (tn + fp + fn + tp))
               \<and> 0 \<le> real (tn + tp) / real (tn + fp + fn + tp)
               \<and> real (tn + tp) / real (tn + fp + fn + tp) \<le> 1"
    unfolding s' by auto
next
  assume bin: "set (y_test k) \<subseteq> {0, 1}"
    and run: "SklearnModel_test e (v, k) = (Returned r2, v', k')"
  from SklearnModel_test_returned [OF run] obtain yp c a where
    yp: "sk_predictions e k = Returned yp"
    and c: "confusion_matrix (y_test k) yp = Returned c"
    and a: "accuracy_of c = Returned a"
    and k': "k' = k\<lparr>y_pred := Some yp, cm := Some c, accuracy := Some a\<rparr>"
    by blast
  have "set (y_test k) \<union> set yp \<subseteq> {0, 1}"
    using bin set_sk_predictions [OF yp] by blast
  from binary_evaluation [OF this c a] show "\<exists>tn fp fn tp.
                 cm k' = Some [[tn, fp], [fn, tp]]
               \<and> tn + fp + fn + tp = length (y_test k)
               \<and> accuracy k' = Some (real (tn + tp) / real (tn + fp + fn + tp))
               \<and> 0 \<le> real (tn + tp) / real (tn + fp + fn + tp)
               \<and> real (tn + tp) / real (tn + fp + fn + tp) \<le> 1"
    unfolding k' by auto
qed

subsection \<open>The concrete run, evaluated\<close>

lemmas demo_defs = demo_env_def demo_world_def demo_sk_def demo_sk_world_def demo_torch_def
  demo_torch_base_def demo_torch_world_def configured_def RandomForestModel_init_def
  SklearnModel_init_def TorchModel_init_def DatasetReader_new_def

lemma demo_torch_test:
  "TorchModel_test demo_env (demo_torch_world, demo_torch)
     = (Returned PyNone, demo_torch_world,
        demo_torch\<lparr>y_pred := Some [1, 1], cm := Some [[0, 1], [0, 1]], accuracy := Some (1 / 2)\<rparr>)"
  by (simp add: demo_defs Let_def TorchModel_test_def sigmoid_zero torch_predicted_def
      batches_Cons batches_Nil
      confusion_matrix_def unique_labels_def cell_count_def accuracy_of_def cm_at_def cm_sum_def)

lemma demo_sk_test:
  "SklearnModel_test demo_env (demo_sk_world, demo_sk)
     = (Returned PyNone, demo_sk_world,
        demo_sk\<lparr>y_pred := Some [1, 1], cm := Some [[0, 1], [0, 1]], accuracy := Some (1 / 2)\<rparr>)"
  by (simp add: demo_defs Let_def SklearnModel_test_def sk_predictions_def column1_def
      sk_thresholded_def
      confusion_matrix_def unique_labels_def cell_count_def accuracy_of_def cm_at_def cm_sum_def)

lemma demo_torch_targets: "target (test_dataset demo_torch) = [0, 1]"
  by (simp add: demo_defs Let_def)

lemma demo_sk_targets: "y_test demo_sk = [0, 1]"
  by (simp add: demo_defs Let_def)

theorem evaluation_confusion_matrix_witness:
  "set (target (test_dataset demo_torch)) \<subseteq> {0, 1}
   \<and> fst (TorchModel_test demo_env (demo_torch_world, demo_torch)) = Returned PyNone
   \<and> (\<exists>tn fp fn tp.
         cm (snd (snd (TorchModel_test demo_env (demo_torch_world, demo_torch))))
           = Some [[tn, fp], [fn, tp]]
       \<and> tn + fp + fn + tp = length (target (test_dataset demo_torch))
       \<and> accuracy (snd (snd (TorchModel_test demo_env (demo_torch_world, demo_torch))))
           = Some (real (tn + tp) / real (tn + fp + fn + tp)))
   \<and> set (y_test demo_sk) \<subseteq> {0, 1}
   \<and> fst (SklearnModel_test demo_env (demo_sk_world, demo_sk)) = Returned PyNone
   \<and> (\<exists>tn fp fn tp.
         cm (snd (snd (SklearnModel_test demo_env (demo_sk_world, demo_sk))))
           = Some [[tn, fp], [fn, tp]]
       \<and> tn + fp + fn + tp = length (y_test demo_sk)
       \<and> accuracy (snd (snd (SklearnModel_test demo_env (demo_sk_world, demo_sk))))
           = Some (real (tn + tp) / real (tn + fp + fn + tp)))"
  using evaluation_confusion_matrix
    [where s = demo_torch and e = demo_env and w = demo_torch_world and r = PyNone
       and w' = demo_torch_world
       and s' = "demo_torch\<lparr>y_pred := Some [1, 1], cm := Some [[0, 1], [0, 1]],
                    accuracy := Some (1 / 2)\<rparr>"
       and k = demo_sk and v = demo_sk_world and ?r2.0 = PyNone and v' = demo_sk_world
       and k' = "demo_sk\<lparr>y_pred := Some [1, 1], cm := Some [[0, 1], [0, 1]],
                    accuracy := Some (1 / 2)\<rparr>"]
  by (simp add: demo_torch_test demo_sk_test demo_torch_targets demo_sk_targets)

subsection \<open>Predictions of an evaluation run\<close>

lemma TorchModel_test_y_pred:
  assumes "model s = Some m"
  shows "y_pred (snd (snd (TorchModel_test e (w, s))))
     = Some (torch_predicted (threshold s)
         (concat (map (forward e m) (batches (nat (batch_size s)) (features (test_dataset s))))))"
proof -
  let ?yp = "torch_predicted (threshold s)
      (concat (map (forward e m) (batches (nat (batch_size s)) (features (test_dataset s)))))"
  show ?thesis
  proof (cases "confusion_matrix (target (test_dataset s)) ?yp")
    case (Raised err)
    then show ?thesis using assms
      by (simp add: TorchModel_test_def Let_def test_batches_eq)
  next
    case (Returned c)
    then show ?thesis using assms
      by (cases "accuracy_of c") (simp_all add: TorchModel_test_def Let_def test_batches_eq)
  qed
qed

lemma SklearnModel_test_y_pred:
  assumes "sk_predictions e k = Returned yp"
  shows "y_pred (snd (snd (SklearnModel_test e (v, k)))) = Some yp"
proof (cases "confusion_matrix (y_test k) yp")
  case (Raised err)
  then show ?thesis using assms by (simp add: SklearnModel_test_def Let_def)
next
  case (Returned c)
  then show ?thesis using assms
    by (cases "accuracy_of c") (simp_all add: SklearnModel_test_def Let_def)
qed

lemma torch_predicted_nth:
  "i < length outs \<Longrightarrow> (torch_predicted t outs ! i = 1) = (sigmoid (outs ! i) \<ge> t)"
  by (simp add: torch_predicted_def)

lemma sk_thresholded_nth:
  "i < length ps \<Longrightarrow> (sk_thresholded t ps ! i = 1) = (ps ! i \<ge> t)"
  by (simp add: sk_thresholded_def)

lemma sk_where_one_nth:
  "i < length rs \<Longrightarrow> sk_where_one rs ! i = (if rs ! i = 1 then 1 else 0)"
  by (simp add: sk_where_one_def)

lemma sk_predictions_supervised:
  assumes "supervised k" "model k = Some m"
    "column1 (predict_proba e m (X_test k)) = Returned y_prob"
  shows "sk_predictions e k = Returned (sk_thresholded (threshold k) y_prob)"
  using assms by (simp add: sk_predictions_def)




subsection \<open>A single-class test set\<close>

lemmas demo_neg_defs = demo_torch_neg_def demo_sk_neg_def

lemma demo_torch_neg_test:
  "TorchModel_test demo_env (demo_torch_world, demo_torch_neg)
     = (Raised IndexError, demo_torch_world,
        demo_torch_neg\<lparr>y_pred := Some [0, 0], cm := Some [[2]]\<rparr>)"
  by (simp add: demo_neg_defs demo_defs Let_def TorchModel_test_def sigmoid_zero
      torch_predicted_def batches_Cons batches_Nil
      confusion_matrix_def unique_labels_def cell_count_def accuracy_of_def cm_at_def cm_sum_def)

lemma demo_sk_neg_test:
  "SklearnModel_test demo_env (demo_sk_world, demo_sk_neg)
     = (Raised IndexError, demo_sk_world,
        demo_sk_neg\<lparr>y_pred := Some [0, 0], cm := Some [[2]]\<rparr>)"
  by (simp add: demo_neg_defs demo_defs Let_def SklearnModel_test_def sk_predictions_def
      column1_def sk_thresholded_def
      confusion_matrix_def unique_labels_def cell_count_def accuracy_of_def cm_at_def cm_sum_def)

lemma demo_neg_fields:
  "target (test_dataset demo_torch_neg) = [0, 0]" "accuracy demo_torch_neg = None"
  "y_test demo_sk_neg = [0, 0]" "accuracy demo_sk_neg = None"
  "threshold demo_torch_neg = 3 / 4" "threshold demo_sk_neg = 3 / 4"
  "model demo_torch_neg = Some []" "model demo_sk_neg = Some []" "supervised demo_sk_neg"
  "batch_size demo_torch_neg = 2" "features (test_dataset demo_torch_neg) = [8, 9]"
  "X_test demo_sk_neg = [8, 9]"
  by (simp_all add: demo_neg_defs demo_defs Let_def)

text \<open>
  The claim as stated, for every evaluation run, fails on a test set whose labels and
  predictions are all of one class: both lifecycles then raise \<^verbatim>\<open>IndexError\<close> at the
  accuracy line, leave the 1x1 matrix \<open>[[2]]\<close> in \<^verbatim>\<open>cm\<close> and assign no accuracy.
\<close>

theorem evaluation_single_class_counterexample:
  "target (test_dataset demo_torch_neg) = [0, 0]
   \<and> TorchModel_test demo_env (demo_torch_world, demo_torch_neg)
       = (Raised IndexError, demo_torch_world,
          demo_torch_neg\<lparr>y_pred := Some [0, 0], cm := Some [[2]]\<rparr>)
   \<and> accuracy (demo_torch_neg\<lparr>y_pred := Some [0, 0], cm := Some [[2]]\<rparr>) = None
   \<and> y_test demo_sk_neg = [0, 0]
   \<and> SklearnModel_test demo_env (demo_sk_world, demo_sk_neg)
       = (Raised IndexError, demo_sk_world,
          demo_sk_neg\<lparr>y_pred := Some [0, 0], cm := Some [[2]]\<rparr>)
   \<and> accuracy (demo_sk_neg\<lparr>y_pred := Some [0, 0], cm := Some [[2]]\<rparr>) = None"
  by (simp add: demo_torch_neg_test demo_sk_neg_test demo_neg_fields)

subsection \<open>The decision threshold is inclusive\<close>

lemma demo_torch_fields:
  "threshold demo_torch = 1 / 2" "model demo_torch = Some []"
  "model_type demo_torch = Some ''NeuralNetwork''" "epochs demo_torch = Some 1"
  "titles demo_torch = Some [''Epoch 1'']" "batch_size demo_torch = 2"
  "scalar demo_torch = 3" "train_file demo_torch = ''train.csv''"
  by (simp_all add: demo_defs Let_def)

lemma demo_sk_fields:
  "threshold demo_sk = 1 / 2" "model demo_sk = Some []" "supervised demo_sk"
  "model_type demo_sk = Some ''RandomForest''" "X_test demo_sk = [8, 9]"
  "scalar demo_sk = 3"
  by (simp_all add: demo_defs Let_def)

lemma demo_sk_column1:
  "column1 (predict_proba demo_env [] (X_test demo_sk)) = Returned [1 / 2, 1 / 2]"
  by (simp add: demo_sk_fields demo_env_def column1_def)

text \<open>
  C7, as amended. A sample is classified positive exactly when its predicted probability is
  at or above the decision threshold, in the gradient lifecycle (the probability is the
  sigmoid of the raw output) and in the supervised branch of the fit/predict lifecycle; in
  particular a sample whose probability equals the threshold is classified positive.
\<close>

theorem threshold_at_or_above:
  fixes s :: "('x, 'm, 'sc) TorchModel" and k :: "('x, 'm, 'sc) SklearnModel"
  shows "(model s = Some m \<longrightarrow>
            y_pred (snd (snd (TorchModel_test e (w, s))))
              = Some (torch_predicted (threshold s)
                  (concat (map (forward e m)
                     (batches (nat (batch_size s)) (features (test_dataset s)))))))
       \<and> (i < length outputs \<longrightarrow>
            (torch_predicted t outputs ! i = 1) = (sigmoid (outputs ! i) \<ge> t)
          \<and> (sigmoid (outputs ! i) = t \<longrightarrow> torch_predicted t outputs ! i = 1))
       \<and> (supervised k \<and> model k = Some m2
            \<and> column1 (predict_proba e m2 (X_test k)) = Returned y_prob \<longrightarrow>
            y_pred (snd (snd (SklearnModel_test e (v, k))))
              = Some (sk_thresholded (threshold k) y_prob))
       \<and> (j < length y_prob \<longrightarrow>
            (sk_thresholded t y_prob ! j = 1) = (y_prob ! j \<ge> t)
          \<and> (y_prob ! j = t \<longrightarrow> sk_thresholded t y_prob ! j = 1))"
proof (intro conjI impI)
  assume "model s = Some m"
  then show "y_pred (snd (snd (TorchModel_test e (w, s))))
              = Some (torch_predicted (threshold s)
                  (concat (map (forward e m)
                     (batches (nat (batch_size s)) (features (test_dataset s))))))"
    by (rule TorchModel_test_y_pred)
next
  assume "i < length outputs"
  then show "(torch_predicted t outputs ! i = 1) = (sigmoid (outputs ! i) \<ge> t)"
    by (rule torch_predicted_nth)
next
  assume "i < length outputs" "sigmoid (outputs ! i) = t"
  then show "torch_predicted t outputs ! i = 1"
    by (simp add: torch_predicted_nth)
next
  assume "supervised k \<and> model k = Some m2
            \<and> column1 (predict_proba e m2 (X_test k)) = Returned y_prob"
  then have "sk_predictions e k = Returned (sk_thresholded (threshold k) y_prob)"
    by (simp add: sk_predictions_supervised)
  then show "y_pred (snd (snd (SklearnModel_test e (v, k))))
              = Some (sk_thresholded (threshold k) y_prob)"
    by (rule SklearnModel_test_y_pred)
next
  assume "j < length y_prob"
  then show "(sk_thresholded t y_prob ! j = 1) = (y_prob ! j \<ge> t)"
    by (rule sk_thresholded_nth)
next
  assume "j < length y_prob" "y_prob ! j = t"
  then show "sk_thresholded t y_prob ! j = 1"
    by (simp add: sk_thresholded_nth)
qed

text \<open>
  The claim as stated fails where the probability equals the threshold: with raw output
  \<open>0\<close> the probability is one half, which is not above the threshold one half, and the
  sample is classified positive; the same holds for the positive-class probability one half
  in the fit/predict lifecycle.
\<close>

theorem threshold_boundary_counterexample:
  "sigmoid 0 = 1 / 2 \<and> \<not> (sigmoid 0 > 1 / 2) \<and> torch_predicted (1 / 2) [0] = [1]
   \<and> \<not> ((1 / 2 :: real) > 1 / 2) \<and> sk_thresholded (1 / 2) [1 / 2] = [1]
   \<and> threshold demo_torch = 1 / 2
   \<and> y_pred (snd (snd (TorchModel_test demo_env (demo_torch_world, demo_torch)))) = Some [1, 1]
   \<and> threshold demo_sk = 1 / 2
   \<and> y_pred (snd (snd (SklearnModel_test demo_env (demo_sk_world, demo_sk)))) = Some [1, 1]"
  by (simp add: sigmoid_zero torch_predicted_def sk_thresholded_def demo_torch_test demo_sk_test
      demo_torch_fields demo_sk_fields)

theorem threshold_at_or_above_witness:
  "model demo_torch = Some []
   \<and> y_pred (snd (snd (TorchModel_test demo_env (demo_torch_world, demo_torch))))
        = Some (torch_predicted (threshold demo_torch)
            (concat (map (forward demo_env [])
               (batches (nat (batch_size demo_torch)) (features (test_dataset demo_torch))))))
   \<and> (0::nat) < length [0 :: real]
   \<and> sigmoid ([0] ! 0) = 1 / 2
   \<and> torch_predicted (1 / 2) [0] ! 0 = 1
   \<and> supervised demo_sk \<and> model demo_sk = Some []
   \<and> column1 (predict_proba demo_env [] (X_test demo_sk)) = Returned [1 / 2, 1 / 2]
   \<and> y_pred (snd (snd (SklearnModel_test demo_env (demo_sk_world, demo_sk))))
        = Some (sk_thresholded (threshold demo_sk) [1 / 2, 1 / 2])
   \<and> (0::nat) < length [1 / 2 :: real, 1 / 2]
   \<and> [1 / 2 :: real, 1 / 2] ! 0 = 1 / 2
   \<and> sk_thresholded (1 / 2) [1 / 2, 1 / 2] ! 0 = 1"
proof -
  have h1: "model demo_torch = Some []" by (rule demo_torch_fields)
  have h2: "(0::nat) < length [0 :: real]" by simp
  have h3: "sigmoid ([0] ! 0) = 1 / 2" by (simp add: sigmoid_zero)
  have h4: "supervised demo_sk \<and> model demo_sk = Some []
      \<and> column1 (predict_proba demo_env [] (X_test demo_sk)) = Returned [1 / 2, 1 / 2]"
    by (simp add: demo_sk_fields(2,3) demo_sk_column1)
  have h5: "(0::nat) < length [1 / 2 :: real, 1 / 2]" by simp
  have h6: "[1 / 2 :: real, 1 / 2] ! 0 = 1 / 2" by simp
  note T = threshold_at_or_above
    [where s = demo_torch and m = "[]" and e = demo_env and w = demo_torch_world
       and i = 0 and outputs = "[0]" and t = "1 / 2"
       and k = demo_sk and ?m2.0 = "[]" and y_prob = "[1 / 2, 1 / 2]" and v = demo_sk_world
       and j = 0]
  show ?thesis using T h1 h2 h3 h4 h5 h6 by blast
qed

subsection \<open>Training without a model\<close>

lemma SklearnModel_init_model:
  "model (snd (SklearnModel_init e w trf tef thr)) = None"
  by (simp add: SklearnModel_init_def Let_def split_beta)

lemma SklearnModel_train_None:
  "model k = None \<Longrightarrow> SklearnModel_train e (v, k)
     = (Raised (ValueError
          ''Model not defined. Please set self.model in subclass before training.''), v, k)"
  by (simp add: SklearnModel_train_def)

text \<open>
  C4. On a fit/predict instance that has no model assigned, as every instance is when the
  constructor returns, \<^verbatim>\<open>train()\<close> raises \<^verbatim>\<open>ValueError\<close> with the message
  "Model not defined. Please set self.model in subclass before training." and leaves the
  instance, and everything outside it, as it was before the call.
\<close>

theorem train_without_model:
  fixes k :: "('x, 'm, 'sc) SklearnModel"
  shows "SklearnModel_train e (SklearnModel_init e w trf tef thr)
           = (Raised (ValueError
                ''Model not defined. Please set self.model in subclass before training.''),
              SklearnModel_init e w trf tef thr)
       \<and> (model k = None \<longrightarrow>
            SklearnModel_train e (v, k)
              = (Raised (ValueError
                   ''Model not defined. Please set self.model in subclass before training.''),
                 v, k))"
proof
  obtain w1 k1 where init: "SklearnModel_init e w trf tef thr = (w1, k1)"
    by (cases "SklearnModel_init e w trf tef thr")
  then have "model k1 = None" using SklearnModel_init_model [of e w trf tef thr] by simp
  then show "SklearnModel_train e (SklearnModel_init e w trf tef thr)
           = (Raised (ValueError
                ''Model not defined. Please set self.model in subclass before training.''),
              SklearnModel_init e w trf tef thr)"
    unfolding init by (rule SklearnModel_train_None)
next
  show "model k = None \<longrightarrow>
            SklearnModel_train e (v, k)
              = (Raised (ValueError
                   ''Model not defined. Please set self.model in subclass before training.''),
                 v, k)"
    by (simp add: SklearnModel_train_None)
qed

theorem train_without_model_witness:
  "model demo_sk_base = None
   \<and> SklearnModel_train demo_env (demo_sk_world, demo_sk_base)
       = (Raised (ValueError
            ''Model not defined. Please set self.model in subclass before training.''),
          demo_sk_world, demo_sk_base)"
  using train_without_model [where k = demo_sk_base and e = demo_env and v = demo_sk_world]
  by (simp add: demo_sk_base_def SklearnModel_init_model)

subsection \<open>The base initializer\<close>

text \<open>
  C5. \<^verbatim>\<open>TorchModel.initModel\<close> of the base class returns the constant \<^verbatim>\<open>NotImplemented\<close> to
  its caller and raises nothing; it changes nothing either.
\<close>

theorem initModel_returns_NotImplemented:
  "TorchModel_initModel (w, s) = (Returned NotImplemented, w, s)
   \<and> fst (TorchModel_initModel (w, s)) \<noteq> Raised err"
  by (simp add: TorchModel_initModel_def)

subsection \<open>The two branches of the fit/predict evaluation\<close>






subsection \<open>A single class gives a 1x1 matrix\<close>

lemma unique_labels_single:
  assumes "0 < n"
  shows "unique_labels (replicate n c) (replicate n c) = [c]"
proof -
  let ?ls = "unique_labels (replicate n c) (replicate n c)"
  have s: "set ?ls = {c}" using assms by (simp add: set_unique_labels)
  have d: "distinct ?ls" by (rule distinct_unique_labels)
  have "length ?ls = card (set ?ls)" using d by (simp add: distinct_card)
  then have "length ?ls = 1" using s by simp
  then obtain x where "?ls = [x]" by (cases ?ls) auto
  then show ?thesis using s by auto
qed

lemma cell_count_single:
  "cell_count (replicate n (c, c)) c c = n"
  by (simp add: cell_count_def)

lemma confusion_matrix_single:
  assumes "0 < n"
  shows "confusion_matrix (replicate n c) (replicate n c) = Returned [[n]]"
  using unique_labels_single [OF assms, of c]
  by (simp add: confusion_matrix_def Let_def cell_count_single)

lemma accuracy_of_single: "accuracy_of [[n]] = Raised IndexError"
  by (simp add: accuracy_of_small)

lemma confusion_matrix_length:
  assumes "confusion_matrix yt yp = Returned c"
  shows "length c = card (set yt \<union> set yp)"
proof -
  have "length c = length (unique_labels yt yp)"
    using confusion_matrix_labels [OF assms] by (metis length_map)
  also have "\<dots> = card (set (unique_labels yt yp))"
    using distinct_unique_labels by (simp add: distinct_card)
  finally show ?thesis by (simp add: set_unique_labels)
qed

lemma accuracy_of_Returned_length:
  "accuracy_of c = Returned a \<Longrightarrow> 2 \<le> length c"
  using accuracy_of_small [of c] by (cases "length c < 2") auto

lemma TorchModel_test_single:
  assumes "model s = Some m" "0 < n"
    and "target (test_dataset s) = replicate n c"
    and "torch_predicted (threshold s)
           (concat (map (forward e m) (batches (nat (batch_size s)) (features (test_dataset s)))))
         = replicate n c"
  shows "TorchModel_test e (w, s)
     = (Raised IndexError, w, s\<lparr>y_pred := Some (replicate n c), cm := Some [[n]]\<rparr>)"
  using assms confusion_matrix_single [OF assms(2), of c]
  by (simp add: TorchModel_test_def Let_def test_batches_eq accuracy_of_single)

lemma SklearnModel_test_single:
  assumes "sk_predictions e k = Returned (replicate n c)" "0 < n"
    and "y_test k = replicate n c"
  shows "SklearnModel_test e (v, k)
     = (Raised IndexError, v, k\<lparr>y_pred := Some (replicate n c), cm := Some [[n]]\<rparr>)"
  using assms confusion_matrix_single [OF assms(2), of c]
  by (simp add: SklearnModel_test_def Let_def accuracy_of_single)

subsection \<open>When the accuracy line is in bounds\<close>

text \<open>
  C10. The accuracy line of both lifecycles indexes cells \<open>[0,0]\<close> and \<open>[1,1]\<close> of the
  confusion matrix. A run returns an accuracy only when the matrix has at least two rows,
  that is when at least two class values occur among the test labels and the predictions;
  on binary labels, only when both \<open>0\<close> and \<open>1\<close> occur among them. On every non-empty test
  set whose labels and predictions are all one class the matrix is 1x1, the run raises
  \<^verbatim>\<open>IndexError\<close> and no accuracy is assigned.
\<close>

theorem accuracy_needs_both_classes:
  fixes s s' :: "('x, 'm, 'sc) TorchModel" and k k' :: "('x, 'm, 'sc) SklearnModel"
  shows "(TorchModel_test e (w, s) = (Returned r, w', s') \<longrightarrow>
            (\<exists>yp c. y_pred s' = Some yp \<and> cm s' = Some c
               \<and> 2 \<le> length c
               \<and> length c = card (set (target (test_dataset s)) \<union> set yp)
               \<and> (set (target (test_dataset s)) \<subseteq> {0, 1} \<longrightarrow>
                     0 \<in> set (target (test_dataset s)) \<union> set yp
                   \<and> 1 \<in> set (target (test_dataset s)) \<union> set yp)))
       \<and> (SklearnModel_test e (v, k) = (Returned r2, v', k') \<longrightarrow>
            (\<exists>yp c. y_pred k' = Some yp \<and> cm k' = Some c
               \<and> 2 \<le> length c
               \<and> length c = card (set (y_test k) \<union> set yp)
               \<and> (set (y_test k) \<subseteq> {0, 1} \<longrightarrow>
                     0 \<in> set (y_test k) \<union> set yp \<and> 1 \<in> set (y_test k) \<union> set yp)))
       \<and> (model s = Some m \<and> 0 < n \<and> target (test_dataset s) = replicate n c0
            \<and> torch_predicted (threshold s)
                 (concat (map (forward e m)
                    (batches (nat (batch_size s)) (features (test_dataset s)))))
               = replicate n c0 \<longrightarrow>
            TorchModel_test e (w, s)
              = (Raised IndexError, w, s\<lparr>y_pred := Some (replicate n c0), cm := Some [[n]]\<rparr>))
       \<and> (sk_predictions e k = Returned (replicate n c0) \<and> 0 < n
            \<and> y_test k = replicate n c0 \<longrightarrow>
            SklearnModel_test e (v, k)
              = (Raised IndexError, v, k\<lparr>y_pred := Some (replicate n c0), cm := Some [[n]]\<rparr>))"
proof (intro conjI impI)
  assume run: "TorchModel_test e (w, s) = (Returned r, w', s')"
  from TorchModel_test_returned [OF run] obtain m yp c a where
    yp: "yp = torch_predicted (threshold s)
              (concat (map (forward e m) (batches (nat (batch_size s)) (features (test_dataset s)))))"
    and c: "confusion_matrix (target (test_dataset s)) yp = Returned c"
    and a: "accuracy_of c = Returned a"
    and s': "s' = s\<lparr>y_pred := Some yp, cm := Some c, accuracy := Some a\<rparr>"
    by blast
  have len: "2 \<le> length c" using a by (rule accuracy_of_Returned_length)
  have card: "length c = card (set (target (test_dataset s)) \<union> set yp)"
    using c by (rule confusion_matrix_length)
  have bin: "set (target (test_dataset s)) \<subseteq> {0, 1} \<longrightarrow>
      0 \<in> set (target (test_dataset s)) \<union> set yp \<and> 1 \<in> set (target (test_dataset s)) \<union> set yp"
  proof
    assume "set (target (test_dataset s)) \<subseteq> {0, 1}"
    then have "set (target (test_dataset s)) \<union> set yp \<subseteq> {0, 1}"
      using set_torch_predicted unfolding yp by blast
    from binary_accuracy_iff(1) [OF this c] a
    show "0 \<in> set (target (test_dataset s)) \<union> set yp \<and> 1 \<in> set (target (test_dataset s)) \<union> set yp"
      by blast
  qed
  show "\<exists>yp c. y_pred s' = Some yp \<and> cm s' = Some c
               \<and> 2 \<le> length c
               \<and> length c = card (set (target (test_dataset s)) \<union> set yp)
               \<and> (set (target (test_dataset s)) \<subseteq> {0, 1} \<longrightarrow>
                     0 \<in> set (target (test_dataset s)) \<union> set yp
                   \<and> 1 \<in> set (target (test_dataset s)) \<union> set yp)"
    using len card bin unfolding s' by (intro exI [of _ yp] exI [of _ c]) simp
next
  assume run: "SklearnModel_test e (v, k) = (Returned r2, v', k')"
  from SklearnModel_test_returned [OF run] obtain yp c a where
    yp: "sk_predictions e k = Returned yp"
    and c: "confusion_matrix (y_test k) yp = Returned c"
    and a: "accuracy_of c = Returned a"
    and k': "k' = k\<lparr>y_pred := Some yp, cm := Some c, accuracy := Some a\<rparr>"
    by blast
  have len: "2 \<le> length c" using a by (rule accuracy_of_Returned_length)
  have card: "length c = card (set (y_test k) \<union> set yp)"
    using c by (rule confusion_matrix_length)
  have bin: "set (y_test k) \<subseteq> {0, 1} \<longrightarrow>
      0 \<in> set (y_test k) \<union> set yp \<and> 1 \<in> set (y_test k) \<union> set yp"
  proof
    assume "set (y_test k) \<subseteq> {0, 1}"
    then have "set (y_test k) \<union> set yp \<subseteq> {0, 1}"
      using set_sk_predictions [OF yp] by blast
    from binary_accuracy_iff(1) [OF this c] a
    show "0 \<in> set (y_test k) \<union> set yp \<and> 1 \<in> set (y_test k) \<union> set yp"
      by blast
  qed
  show "\<exists>yp c. y_pred k' = Some yp \<and> cm k' = Some c
               \<and> 2 \<le> length c
               \<and> length c = card (set (y_test k) \<union> set yp)
               \<and> (set (y_test k) \<subseteq> {0, 1} \<longrightarrow>
                     0 \<in> set (y_test k) \<union> set yp \<and> 1 \<in> set (y_test k) \<union> set yp)"
    using len card bin unfolding k' by (intro exI [of _ yp] exI [of _ c]) simp
next
  assume "model s = Some m \<and> 0 < n \<and> target (test_dataset s) = replicate n c0
            \<and> torch_predicted (threshold s)
                 (concat (map (forward e m)
                    (batches (nat (batch_size s)) (features (test_dataset s)))))
               = replicate n c0"
  then show "TorchModel_test e (w, s)
              = (Raised IndexError, w, s\<lparr>y_pred := Some (replicate n c0), cm := Some [[n]]\<rparr>)"
    by (elim conjE) (rule TorchModel_test_single; assumption)
next
  assume "sk_predictions e k = Returned (replicate n c0) \<and> 0 < n
            \<and> y_test k = replicate n c0"
  then show "SklearnModel_test e (v, k)
              = (Raised IndexError, v, k\<lparr>y_pred := Some (replicate n c0), cm := Some [[n]]\<rparr>)"
    by (elim conjE) (rule SklearnModel_test_single; assumption)
qed

lemma demo_torch_neg_predicted:
  "torch_predicted (threshold demo_torch_neg)
     (concat (map (forward demo_env [])
        (batches (nat (batch_size demo_torch_neg)) (features (test_dataset demo_torch_neg)))))
   = replicate 2 0"
  by (simp add: demo_neg_fields batches_Cons batches_Nil demo_env_def torch_predicted_def
      sigmoid_zero numeral_2_eq_2)

lemma demo_sk_neg_predictions:
  "sk_predictions demo_env demo_sk_neg = Returned (replicate 2 0)"
  by (simp add: sk_predictions_def demo_neg_fields demo_env_def column1_def sk_thresholded_def
      numeral_2_eq_2)

lemma demo_neg_targets:
  "target (test_dataset demo_torch_neg) = replicate 2 0" "y_test demo_sk_neg = replicate 2 0"
  by (simp_all add: demo_neg_fields numeral_2_eq_2)

theorem accuracy_needs_both_classes_witness:
  "TorchModel_test demo_env (demo_torch_world, demo_torch)
     = (Returned PyNone, demo_torch_world,
        demo_torch\<lparr>y_pred := Some [1, 1], cm := Some [[0, 1], [0, 1]], accuracy := Some (1 / 2)\<rparr>)
   \<and> target (test_dataset demo_torch) = [0, 1]
   \<and> SklearnModel_test demo_env (demo_sk_world, demo_sk)
     = (Returned PyNone, demo_sk_world,
        demo_sk\<lparr>y_pred := Some [1, 1], cm := Some [[0, 1], [0, 1]], accuracy := Some (1 / 2)\<rparr>)
   \<and> y_test demo_sk = [0, 1]
   \<and> model demo_torch_neg = Some [] \<and> (0::nat) < 2
   \<and> target (test_dataset demo_torch_neg) = replicate 2 0
   \<and> torch_predicted (threshold demo_torch_neg)
        (concat (map (forward demo_env [])
           (batches (nat (batch_size demo_torch_neg)) (features (test_dataset demo_torch_neg)))))
      = replicate 2 0
   \<and> TorchModel_test demo_env (demo_torch_world, demo_torch_neg)
      = (Raised IndexError, demo_torch_world,
         demo_torch_neg\<lparr>y_pred := Some (replicate 2 0), cm := Some [[2]]\<rparr>)
   \<and> sk_predictions demo_env demo_sk_neg = Returned (replicate 2 0)
   \<and> y_test demo_sk_neg = replicate 2 0
   \<and> SklearnModel_test demo_env (demo_sk_world, demo_sk_neg)
      = (Raised IndexError, demo_sk_world,
         demo_sk_neg\<lparr>y_pred := Some (replicate 2 0), cm := Some [[2]]\<rparr>)
   \<and> (\<exists>yp c. y_pred (demo_torch\<lparr>y_pred := Some [1, 1], cm := Some [[0, 1], [0, 1]],
                       accuracy := Some (1 / 2)\<rparr>) = Some yp
          \<and> cm (demo_torch\<lparr>y_pred := Some [1, 1], cm := Some [[0, 1], [0, 1]],
                       accuracy := Some (1 / 2)\<rparr>) = Some c
          \<and> 2 \<le> length c
          \<and> 0 \<in> set (target (test_dataset demo_torch)) \<union> set yp
          \<and> 1 \<in> set (target (test_dataset demo_torch)) \<union> set yp)"
proof -
  note T1 = accuracy_needs_both_classes
    [where s = demo_torch and e = demo_env and w = demo_torch_world and r = PyNone
       and w' = demo_torch_world
       and s' = "demo_torch\<lparr>y_pred := Some [1, 1], cm := Some [[0, 1], [0, 1]],
                    accuracy := Some (1 / 2)\<rparr>"]
  note T2 = accuracy_needs_both_classes
    [where s = demo_torch_neg and e = demo_env and w = demo_torch_world and m = "[]"
       and n = 2 and ?c0.0 = 0 and k = demo_sk_neg and v = demo_sk_world]
  have two: "(0::nat) < 2" by simp
  have bin: "set (target (test_dataset demo_torch)) \<subseteq> {0, 1}"
    by (simp add: demo_torch_targets)
  have r1: "\<exists>yp c. y_pred (demo_torch\<lparr>y_pred := Some [1, 1], cm := Some [[0, 1], [0, 1]],
                       accuracy := Some (1 / 2)\<rparr>) = Some yp
          \<and> cm (demo_torch\<lparr>y_pred := Some [1, 1], cm := Some [[0, 1], [0, 1]],
                       accuracy := Some (1 / 2)\<rparr>) = Some c
          \<and> 2 \<le> length c
          \<and> 0 \<in> set (target (test_dataset demo_torch)) \<union> set yp
          \<and> 1 \<in> set (target (test_dataset demo_torch)) \<union> set yp"
    using T1 demo_torch_test bin by blast
  have r2: "TorchModel_test demo_env (demo_torch_world, demo_torch_neg)
      = (Raised IndexError, demo_torch_world,
         demo_torch_neg\<lparr>y_pred := Some (replicate 2 0), cm := Some [[2]]\<rparr>)"
    using T2 demo_neg_fields(7) two demo_neg_targets(1) demo_torch_neg_predicted by blast
  have r3: "SklearnModel_test demo_env (demo_sk_world, demo_sk_neg)
      = (Raised IndexError, demo_sk_world,
         demo_sk_neg\<lparr>y_pred := Some (replicate 2 0), cm := Some [[2]]\<rparr>)"
    using T2 demo_sk_neg_predictions two demo_neg_targets(2) by blast
  show ?thesis
    using r1 r2 r3 demo_torch_test demo_sk_test demo_torch_targets demo_sk_targets
      demo_neg_fields(7) two demo_neg_targets demo_torch_neg_predicted demo_sk_neg_predictions
    by blast
qed

subsection \<open>Timestamps\<close>

lemma is_digit_digit: "is_digit (digit d)"
proof -
  have "d mod 10 < length ''0123456789''" by simp
  then have "''0123456789'' ! (d mod 10) \<in> set ''0123456789''" by (rule nth_mem)
  then show ?thesis by (simp only: is_digit_def digit_def)
qed

lemma length_zpad: "length (zpad k n) = k"
  by (induction k arbitrary: n) simp_all

lemma digits_zpad: "list_all is_digit (zpad k n)"
  by (induction k arbitrary: n) (simp_all add: is_digit_digit)

lemma is_timestamp_strftime: "is_timestamp (strftime t)"
proof -
  let ?d = "zpad 4 (tm_year t) @ zpad 2 (tm_mon t) @ zpad 2 (tm_mday t)"
  let ?h = "zpad 2 (tm_hour t) @ zpad 2 (tm_min t) @ zpad 2 (tm_sec t)"
  have st: "strftime t = ?d @ CHR ''_'' # ?h" by (simp add: strftime_def)
  have ld: "length ?d = 8" by (simp add: length_zpad)
  have lh: "length ?h = 6" by (simp add: length_zpad)
  have "length (strftime t) = 15" unfolding st using ld lh by simp
  moreover have "take 8 (strftime t) = ?d" unfolding st using ld by simp
  moreover have "strftime t ! 8 = CHR ''_''" unfolding st using ld
    by (metis nth_append_length)
  moreover have "drop 9 (strftime t) = ?h"
  proof -
    have "drop 9 (?d @ CHR ''_'' # ?h) = drop (9 - length ?d) (CHR ''_'' # ?h)"
      using ld by (simp del: append_assoc)
    also have "\<dots> = ?h" using ld by simp
    finally show ?thesis unfolding st .
  qed
  moreover have "list_all is_digit ?d" "list_all is_digit ?h"
    by (simp_all add: digits_zpad)
  ultimately show ?thesis by (simp add: is_timestamp_def)
qed

lemma zpad_2: "zpad 2 n = [digit (n div 10), digit n]"
proof -
  have "zpad 2 n = zpad (Suc (Suc 0)) n" by (simp only: numeral_2_eq_2)
  also have "\<dots> = [digit (n div 10), digit n]" by simp
  finally show ?thesis .
qed

lemma zpad_4:
  "zpad 4 n = [digit (n div 10 div 10 div 10), digit (n div 10 div 10), digit (n div 10), digit n]"
proof -
  have "(4::nat) = Suc (Suc (Suc (Suc 0)))" by simp
  then have "zpad 4 n = zpad (Suc (Suc (Suc (Suc 0)))) n" by (rule arg_cong)
  also have "\<dots> = [digit (n div 10 div 10 div 10), digit (n div 10 div 10), digit (n div 10),
      digit n]" by simp
  finally show ?thesis .
qed

lemma demo_localtime:
  "localtime demo_env k = \<lparr>tm_year = 2025, tm_mon = 5, tm_mday = 3,
                           tm_hour = 2, tm_min = 13, tm_sec = 50 + k\<rparr>"
  by (simp add: demo_env_def)

lemma demo_digits:
  "digit 2025 = CHR ''5''" "digit 202 = CHR ''2''" "digit 20 = CHR ''0''" "digit 2 = CHR ''2''"
  "digit 5 = CHR ''5''" "digit 0 = CHR ''0''" "digit 3 = CHR ''3''" "digit 13 = CHR ''3''"
  "digit 1 = CHR ''1''" "digit 50 = CHR ''0''" "digit (Suc 0) = CHR ''1''"
  by (simp_all add: digit_def)

lemma demo_strftime:
  "strftime (localtime demo_env 0) = ''20250503_021350''"
  by (simp add: strftime_def demo_localtime zpad_2 zpad_4 demo_digits)

subsection \<open>Checkpoints\<close>

lemma written_append: "written w (w'\<lparr>files := files w @ new\<rparr>) = new"
  by (simp add: written_def)

lemma written_clock: "written w (w\<lparr>clock := c\<rparr>) = []"
  by (simp add: written_def)

lemma TorchModel_saveModel_ok:
  assumes "model_type s = Some tag" "model s = Some m"
  shows "TorchModel_saveModel e (w, s)
     = (Returned PyNone,
        w\<lparr>clock := clock w + 1,
          files := files w @
            [(tag @ ''Model_'' @ strftime (localtime e (clock w)) @ ''.pth'', TorchSave,
              [(''model'', CkModel m), (''threshold'', CkFloat (threshold s)),
               (''model_type'', CkStr ''PyTorch''), (''scalar'', CkScaler (scalar s))])]\<rparr>,
        s\<lparr>timestamp := Some (strftime (localtime e (clock w))),
          file_name := Some (tag @ ''Model_'' @ strftime (localtime e (clock w)) @ ''.pth''),
          to_save := Some
              [(''model'', CkModel m), (''threshold'', CkFloat (threshold s)),
               (''model_type'', CkStr ''PyTorch''), (''scalar'', CkScaler (scalar s))]\<rparr>)"
  using assms by (simp add: TorchModel_saveModel_def Let_def)

lemma TorchModel_saveModel_no_type:
  assumes "model_type s = None"
  shows "TorchModel_saveModel e (w, s)
     = (Raised (AttributeError ''model_type''), w\<lparr>clock := clock w + 1\<rparr>,
        s\<lparr>timestamp := Some (strftime (localtime e (clock w)))\<rparr>)"
  using assms by (simp add: TorchModel_saveModel_def Let_def)

lemma TorchModel_saveModel_no_model:
  assumes "model_type s = Some tag" "model s = None"
  shows "TorchModel_saveModel e (w, s)
     = (Raised (AttributeError ''model''), w\<lparr>clock := clock w + 1\<rparr>,
        s\<lparr>timestamp := Some (strftime (localtime e (clock w))),
          file_name := Some (tag @ ''Model_'' @ strftime (localtime e (clock w)) @ ''.pth'')\<rparr>)"
  using assms by (simp add: TorchModel_saveModel_def Let_def)

lemma SklearnModel_saveModel_ok:
  assumes "model_type k = Some tag"
  shows "SklearnModel_saveModel e (v, k)
     = (Returned PyNone,
        v\<lparr>clock := clock v + 1,
          files := files v @
            [(tag @ ''Model_'' @ strftime (localtime e (clock v)) @ ''.joblib'', JoblibDump,
              [(''model'', (case model k of None \<Rightarrow> CkNone | Some m \<Rightarrow> CkModel m)),
               (''threshold'', CkFloat (threshold k)),
               (''model_type'', CkStr tag), (''scalar'', CkScaler (scalar k))])]\<rparr>,
        k\<lparr>timestamp := Some (strftime (localtime e (clock v))),
          file_name := Some (tag @ ''Model_'' @ strftime (localtime e (clock v)) @ ''.joblib'')\<rparr>)"
  using assms by (simp add: SklearnModel_saveModel_def Let_def)

lemma SklearnModel_saveModel_no_type:
  assumes "model_type k = None"
  shows "SklearnModel_saveModel e (v, k)
     = (Raised (AttributeError ''model_type''), v\<lparr>clock := clock v + 1\<rparr>,
        k\<lparr>timestamp := Some (strftime (localtime e (clock v)))\<rparr>)"
  using assms by (simp add: SklearnModel_saveModel_def Let_def)

text \<open>
  C9. Every checkpoint that \<^verbatim>\<open>saveModel\<close> writes is one record with exactly the fields
  \<^verbatim>\<open>model\<close>, \<^verbatim>\<open>threshold\<close>, \<^verbatim>\<open>model_type\<close> and \<^verbatim>\<open>scalar\<close>, in a file named by the
  instance's model type, \<^verbatim>\<open>Model_\<close>, a timestamp of the shape \<^verbatim>\<open>YYYYMMDD_HHMMSS\<close> and an
  extension. The gradient lifecycle stores the constant \<^verbatim>\<open>"PyTorch"\<close> as \<^verbatim>\<open>model_type\<close>,
  whatever the model type in the file name, and writes \<^verbatim>\<open>.pth\<close> with \<^verbatim>\<open>torch.save\<close>; the
  fit/predict lifecycle stores the instance's model type and writes \<^verbatim>\<open>.joblib\<close> with
  \<^verbatim>\<open>joblib.dump\<close>. A call writes one checkpoint when the attributes it reads are set, and
  none otherwise.
\<close>

theorem checkpoint_record:
  fixes s :: "('x, 'm, 'sc) TorchModel" and k :: "('x, 'm, 'sc) SklearnModel"
  shows "(\<forall>ck \<in> set (written w (fst (snd (TorchModel_saveModel e (w, s))))).
            case ck of (name, ser, d) \<Rightarrow>
              ser = TorchSave
            \<and> map fst d = [''model'', ''threshold'', ''model_type'', ''scalar'']
            \<and> map_of d ''model_type'' = Some (CkStr ''PyTorch'')
            \<and> map_of d ''threshold'' = Some (CkFloat (threshold s))
            \<and> map_of d ''scalar'' = Some (CkScaler (scalar s))
            \<and> (\<exists>m. model s = Some m \<and> map_of d ''model'' = Some (CkModel m))
            \<and> (\<exists>tag st. model_type s = Some tag \<and> is_timestamp st
                  \<and> name = tag @ ''Model_'' @ st @ ''.pth''))
       \<and> (model_type s = Some tag \<and> model s = Some m \<longrightarrow>
            fst (TorchModel_saveModel e (w, s)) = Returned PyNone
          \<and> length (written w (fst (snd (TorchModel_saveModel e (w, s))))) = 1)
       \<and> (model_type s = None \<or> model s = None \<longrightarrow>
            written w (fst (snd (TorchModel_saveModel e (w, s)))) = [])
       \<and> (\<forall>ck \<in> set (written v (fst (snd (SklearnModel_saveModel e (v, k))))).
            case ck of (name, ser, d) \<Rightarrow>
              ser = JoblibDump
            \<and> map fst d = [''model'', ''threshold'', ''model_type'', ''scalar'']
            \<and> map_of d ''threshold'' = Some (CkFloat (threshold k))
            \<and> map_of d ''scalar'' = Some (CkScaler (scalar k))
            \<and> map_of d ''model''
                = Some (case model k of None \<Rightarrow> CkNone | Some m \<Rightarrow> CkModel m)
            \<and> (\<exists>tag st. model_type k = Some tag \<and> is_timestamp st
                  \<and> name = tag @ ''Model_'' @ st @ ''.joblib''
                  \<and> map_of d ''model_type'' = Some (CkStr tag)))
       \<and> (model_type k = Some tag2 \<longrightarrow>
            fst (SklearnModel_saveModel e (v, k)) = Returned PyNone
          \<and> length (written v (fst (snd (SklearnModel_saveModel e (v, k))))) = 1)
       \<and> (model_type k = None \<longrightarrow>
            written v (fst (snd (SklearnModel_saveModel e (v, k)))) = [])"
proof (intro conjI)
  show "\<forall>ck \<in> set (written w (fst (snd (TorchModel_saveModel e (w, s))))).
            case ck of (name, ser, d) \<Rightarrow>
              ser = TorchSave
            \<and> map fst d = [''model'', ''threshold'', ''model_type'', ''scalar'']
            \<and> map_of d ''model_type'' = Some (CkStr ''PyTorch'')
            \<and> map_of d ''threshold'' = Some (CkFloat (threshold s))
            \<and> map_of d ''scalar'' = Some (CkScaler (scalar s))
            \<and> (\<exists>m. model s = Some m \<and> map_of d ''model'' = Some (CkModel m))
            \<and> (\<exists>tag st. model_type s = Some tag \<and> is_timestamp st
                  \<and> name = tag @ ''Model_'' @ st @ ''.pth'')"
  proof (cases "model_type s")
    case None
    then show ?thesis by (simp add: TorchModel_saveModel_no_type written_clock)
  next
    case (Some tag)
    show ?thesis
    proof (cases "model s")
      case None
      then show ?thesis using Some
        by (simp add: TorchModel_saveModel_no_model written_clock)
    next
      case (Some m)
      then show ?thesis using \<open>model_type s = Some tag\<close> is_timestamp_strftime
        by (simp add: TorchModel_saveModel_ok written_append)
    qed
  qed
next
  show "model_type s = Some tag \<and> model s = Some m \<longrightarrow>
            fst (TorchModel_saveModel e (w, s)) = Returned PyNone
          \<and> length (written w (fst (snd (TorchModel_saveModel e (w, s))))) = 1"
    by (simp add: TorchModel_saveModel_ok written_append)
next
  show "model_type s = None \<or> model s = None \<longrightarrow>
            written w (fst (snd (TorchModel_saveModel e (w, s)))) = []"
  proof (cases "model_type s")
    case None
    then show ?thesis by (simp add: TorchModel_saveModel_no_type written_clock)
  next
    case (Some tag)
    then show ?thesis
      by (cases "model s") (simp_all add: TorchModel_saveModel_no_model written_clock)
  qed
next
  show "\<forall>ck \<in> set (written v (fst (snd (SklearnModel_saveModel e (v, k))))).
            case ck of (name, ser, d) \<Rightarrow>
              ser = JoblibDump
            \<and> map fst d = [''model'', ''threshold'', ''model_type'', ''scalar'']
            \<and> map_of d ''threshold'' = Some (CkFloat (threshold k))
            \<and> map_of d ''scalar'' = Some (CkScaler (scalar k))
            \<and> map_of d ''model''
                = Some (case model k of None \<Rightarrow> CkNone | Some m \<Rightarrow> CkModel m)
            \<and> (\<exists>tag st. model_type k = Some tag \<and> is_timestamp st
                  \<and> name = tag @ ''Model_'' @ st @ ''.joblib''
                  \<and> map_of d ''model_type'' = Some (CkStr tag))"
  proof (cases "model_type k")
    case None
    then show ?thesis by (simp add: SklearnModel_saveModel_no_type written_clock)
  next
    case (Some tag)
    then show ?thesis using is_timestamp_strftime
      by (simp add: SklearnModel_saveModel_ok written_append)
  qed
next
  show "model_type k = Some tag2 \<longrightarrow>
            fst (SklearnModel_saveModel e (v, k)) = Returned PyNone
          \<and> length (written v (fst (snd (SklearnModel_saveModel e (v, k))))) = 1"
    by (simp add: SklearnModel_saveModel_ok written_append)
next
  show "model_type k = None \<longrightarrow>
            written v (fst (snd (SklearnModel_saveModel e (v, k)))) = []"
    by (simp add: SklearnModel_saveModel_no_type written_clock)
qed

lemma demo_world_fields:
  "clock demo_torch_world = 0" "files demo_torch_world = []"
  "clock demo_sk_world = 0" "files demo_sk_world = []"
  by (simp_all add: demo_defs Let_def split_beta)

lemma demo_torch_saved:
  "written demo_torch_world
     (fst (snd (TorchModel_saveModel demo_env (demo_torch_world, demo_torch))))
   = [(''NeuralNetworkModel_20250503_021350.pth'', TorchSave,
       [(''model'', CkModel []), (''threshold'', CkFloat (1 / 2)),
        (''model_type'', CkStr ''PyTorch''), (''scalar'', CkScaler 3)])]"
  by (simp add: TorchModel_saveModel_ok [OF demo_torch_fields(3) demo_torch_fields(2)]
      written_def demo_world_fields demo_strftime demo_torch_fields)

lemma demo_sk_saved:
  "written demo_sk_world
     (fst (snd (SklearnModel_saveModel demo_env (demo_sk_world, demo_sk))))
   = [(''RandomForestModel_20250503_021350.joblib'', JoblibDump,
       [(''model'', CkModel []), (''threshold'', CkFloat (1 / 2)),
        (''model_type'', CkStr ''RandomForest''), (''scalar'', CkScaler 3)])]"
  by (simp add: SklearnModel_saveModel_ok [OF demo_sk_fields(4)]
      written_def demo_world_fields demo_strftime demo_sk_fields)

theorem checkpoint_record_witness:
  "model_type demo_torch = Some ''NeuralNetwork'' \<and> model demo_torch = Some []
   \<and> written demo_torch_world
        (fst (snd (TorchModel_saveModel demo_env (demo_torch_world, demo_torch))))
      = [(''NeuralNetworkModel_20250503_021350.pth'', TorchSave,
          [(''model'', CkModel []), (''threshold'', CkFloat (1 / 2)),
           (''model_type'', CkStr ''PyTorch''), (''scalar'', CkScaler 3)])]
   \<and> fst (TorchModel_saveModel demo_env (demo_torch_world, demo_torch)) = Returned PyNone
   \<and> is_timestamp ''20250503_021350''
   \<and> model_type demo_sk = Some ''RandomForest''
   \<and> written demo_sk_world
        (fst (snd (SklearnModel_saveModel demo_env (demo_sk_world, demo_sk))))
      = [(''RandomForestModel_20250503_021350.joblib'', JoblibDump,
          [(''model'', CkModel []), (''threshold'', CkFloat (1 / 2)),
           (''model_type'', CkStr ''RandomForest''), (''scalar'', CkScaler 3)])]
   \<and> fst (SklearnModel_saveModel demo_env (demo_sk_world, demo_sk)) = Returned PyNone
   \<and> model_type demo_sk_base = None
   \<and> written demo_sk_world
        (fst (snd (SklearnModel_saveModel demo_env (demo_sk_world, demo_sk_base)))) = []"
proof -
  note T = checkpoint_record
    [where s = demo_torch and e = demo_env and w = demo_torch_world
       and tag = "''NeuralNetwork''" and m = "[]"
       and k = demo_sk and v = demo_sk_world and ?tag2.0 = "''RandomForest''"]
  note T2 = checkpoint_record [where k = demo_sk_base and e = demo_env and v = demo_sk_world]
  have ts: "is_timestamp ''20250503_021350''"
    using is_timestamp_strftime [of "localtime demo_env 0"] by (simp add: demo_strftime)
  have base: "model_type demo_sk_base = None"
    by (simp add: demo_sk_base_def SklearnModel_init_def Let_def split_beta)
  have r1: "fst (TorchModel_saveModel demo_env (demo_torch_world, demo_torch)) = Returned PyNone"
    using T demo_torch_fields(2,3) by blast
  have r2: "fst (SklearnModel_saveModel demo_env (demo_sk_world, demo_sk)) = Returned PyNone"
    using T demo_sk_fields(4) by blast
  have r3: "written demo_sk_world
        (fst (snd (SklearnModel_saveModel demo_env (demo_sk_world, demo_sk_base)))) = []"
    using T2 base by blast
  show ?thesis
    using r1 r2 r3 ts base demo_torch_saved demo_sk_saved demo_torch_fields(2,3)
      demo_sk_fields(4)
    by blast
qed

subsection \<open>What each method assigns\<close>

lemma TorchModel_train_frame:
  "\<exists>r m l t. snd (TorchModel_train e (w, s))
     = (w\<lparr>rng := r\<rparr>, s\<lparr>model := m, running_loss := l, train_loss := t\<rparr>)"
proof (cases "model s")
  case None
  have "snd (TorchModel_train e (w, s))
      = (w\<lparr>rng := rng w\<rparr>,
         s\<lparr>model := model s, running_loss := running_loss s, train_loss := train_loss s\<rparr>)"
    using None by (simp add: TorchModel_train_def)
  then show ?thesis by blast
next
  case (Some m)
  let ?bs = "batches (nat (batch_size s))
      (shuffled e (rng w) (zip (features (train_dataset s)) (target (train_dataset s))))"
  obtain m1 ls where tb: "train_batches e ?bs (m, 0) = (m1, ls)"
    by (cases "train_batches e ?bs (m, 0)")
  show ?thesis
  proof (cases "?bs = []")
    case True
    have "snd (TorchModel_train e (w, s))
        = (w\<lparr>rng := rng w + 1\<rparr>,
           s\<lparr>model := Some m1, running_loss := Some ls, train_loss := train_loss s\<rparr>)"
      using Some tb True by (simp add: TorchModel_train_def Let_def)
    then show ?thesis by blast
  next
    case False
    have "snd (TorchModel_train e (w, s))
        = (w\<lparr>rng := rng w + 1\<rparr>,
           s\<lparr>model := Some m1, running_loss := Some ls,
             train_loss := Some (ls / real (length ?bs))\<rparr>)"
      using Some tb False by (simp add: TorchModel_train_def Let_def)
    then show ?thesis by blast
  qed
qed

lemma TorchModel_test_frame:
  "\<exists>yp c a. snd (TorchModel_test e (w, s)) = (w, s\<lparr>y_pred := yp, cm := c, accuracy := a\<rparr>)"
proof (cases "model s")
  case None
  have "snd (TorchModel_test e (w, s))
      = (w, s\<lparr>y_pred := y_pred s, cm := cm s, accuracy := accuracy s\<rparr>)"
    using None by (simp add: TorchModel_test_def)
  then show ?thesis by blast
next
  case (Some m)
  let ?yp = "torch_predicted (threshold s)
      (concat (map (forward e m) (batches (nat (batch_size s)) (features (test_dataset s)))))"
  show ?thesis
  proof (cases "confusion_matrix (target (test_dataset s)) ?yp")
    case (Raised err)
    have "snd (TorchModel_test e (w, s))
        = (w, s\<lparr>y_pred := Some ?yp, cm := cm s, accuracy := accuracy s\<rparr>)"
      using Some Raised by (simp add: TorchModel_test_def Let_def test_batches_eq)
    then show ?thesis by blast
  next
    case (Returned c)
    note c = Returned
    show ?thesis
    proof (cases "accuracy_of c")
      case (Raised err)
      have "snd (TorchModel_test e (w, s))
          = (w, s\<lparr>y_pred := Some ?yp, cm := Some c, accuracy := accuracy s\<rparr>)"
        using Some c Raised by (simp add: TorchModel_test_def Let_def test_batches_eq)
      then show ?thesis by blast
    next
      case (Returned a)
      have "snd (TorchModel_test e (w, s))
          = (w, s\<lparr>y_pred := Some ?yp, cm := Some c, accuracy := Some a\<rparr>)"
        using Some c Returned by (simp add: TorchModel_test_def Let_def test_batches_eq)
      then show ?thesis by blast
    qed
  qed
qed

lemma TorchModel_saveModel_frame:
  "\<exists>c f ts fn sv. snd (TorchModel_saveModel e (w, s))
     = (w\<lparr>clock := c, files := f\<rparr>, s\<lparr>timestamp := ts, file_name := fn, to_save := sv\<rparr>)"
proof (cases "model_type s")
  case None
  have "snd (TorchModel_saveModel e (w, s))
      = (w\<lparr>clock := clock w + 1, files := files w\<rparr>,
         s\<lparr>timestamp := Some (strftime (localtime e (clock w))), file_name := file_name s,
           to_save := to_save s\<rparr>)"
    using None by (simp add: TorchModel_saveModel_no_type)
  then show ?thesis by blast
next
  case (Some tag)
  show ?thesis
  proof (cases "model s")
    case None
    have "snd (TorchModel_saveModel e (w, s))
        = (w\<lparr>clock := clock w + 1, files := files w\<rparr>,
           s\<lparr>timestamp := Some (strftime (localtime e (clock w))),
             file_name := Some (tag @ ''Model_'' @ strftime (localtime e (clock w)) @ ''.pth''),
             to_save := to_save s\<rparr>)"
      using None Some by (simp add: TorchModel_saveModel_no_model)
    then show ?thesis by blast
  next
    case (Some m)
    show ?thesis
      unfolding TorchModel_saveModel_ok [OF \<open>model_type s = Some tag\<close> Some] by auto
  qed
qed

lemma DatasetReader_new_given:
  "DatasetReader_new e w f True (Some sc)
     = (w\<lparr>rng := rng w + 1\<rparr>,
        \<lparr>features = map (transform e sc) (map fst (undersample_rows e (rng w) (read_csv e f))),
         target = map snd (undersample_rows e (rng w) (read_csv e f)),
         getScalar = sc\<rparr>)"
  by (simp add: DatasetReader_new_def Let_def)

lemma DatasetReader_new_test:
  "DatasetReader_new e w f False (Some sc)
     = (w, \<lparr>features = map (transform e sc) (map fst (read_csv e f)),
             target = map snd (read_csv e f),
             getScalar = sc\<rparr>)"
  by (simp add: DatasetReader_new_def Let_def)

lemma DatasetReader_new_fit:
  "DatasetReader_new e w f True None
     = (w\<lparr>rng := rng w + 1,
          fit_log := fit_log w @ [map fst (undersample_rows e (rng w) (read_csv e f))]\<rparr>,
        \<lparr>features = map (transform e
             (fit_scaler e (map fst (undersample_rows e (rng w) (read_csv e f)))))
             (map fst (undersample_rows e (rng w) (read_csv e f))),
         target = map snd (undersample_rows e (rng w) (read_csv e f)),
         getScalar = fit_scaler e (map fst (undersample_rows e (rng w) (read_csv e f)))\<rparr>)"
  by (simp add: DatasetReader_new_def Let_def)

subsection \<open>One epoch\<close>

lemma resampled_eq:
  "resampled e s r
     = \<lparr>features = map (transform e (scalar s))
          (map fst (undersample_rows e r (read_csv e (train_file s)))),
        target = map snd (undersample_rows e r (read_csv e (train_file s))),
        getScalar = scalar s\<rparr>"
  by (simp add: resampled_def DatasetReader_new_given)

lemma DatasetReader_new_resampled:
  "DatasetReader_new e w (train_file s) True (Some (scalar s))
     = (w\<lparr>rng := rng w + 1\<rparr>, resampled e s (rng w))"
  by (simp add: resampled_eq DatasetReader_new_given)

lemma epoch_body_train_Raised:
  "TorchModel_train e ws = (Raised err, w1, s1) \<Longrightarrow> epoch_body e ws = (Raised err, w1, s1)"
  by (simp add: epoch_body_def)

lemma epoch_body_test_Raised:
  assumes "TorchModel_train e ws = (Returned x, w1, s1)"
    and "TorchModel_test e (w1\<lparr>rng := rng w1 + 1\<rparr>,
           s1\<lparr>train_dataset := resampled e s1 (rng w1)\<rparr>) = (Raised err, w3, s3)"
  shows "epoch_body e ws = (Raised err, w3, s3)"
  using assms by (simp add: epoch_body_def DatasetReader_new_resampled)

lemma epoch_body_save_Raised:
  assumes "TorchModel_train e ws = (Returned x, w1, s1)"
    and "TorchModel_test e (w1\<lparr>rng := rng w1 + 1\<rparr>,
           s1\<lparr>train_dataset := resampled e s1 (rng w1)\<rparr>) = (Returned y, w3, s3)"
    and "TorchModel_saveModel e (w3, s3) = (Raised err, w4, s4)"
  shows "epoch_body e ws = (Raised err, w4, s4)"
  using assms by (simp add: epoch_body_def DatasetReader_new_resampled)

lemma epoch_body_save_Returned:
  assumes "TorchModel_train e ws = (Returned x, w1, s1)"
    and "TorchModel_test e (w1\<lparr>rng := rng w1 + 1\<rparr>,
           s1\<lparr>train_dataset := resampled e s1 (rng w1)\<rparr>) = (Returned y, w3, s3)"
    and "TorchModel_saveModel e (w3, s3) = (Returned z, w4, s4)"
  shows "epoch_body e ws
     = (case (cms s4, cm s4) of
          (Some recorded, Some c) \<Rightarrow> (Returned PyNone, w4, s4\<lparr>cms := Some (recorded @ [c])\<rparr>)
        | _ \<Rightarrow> (Raised (AttributeError ''cms''), w4, s4))"
  using assms by (simp add: epoch_body_def DatasetReader_new_resampled)

lemma train_keeps:
  "fixed_part (snd (snd (TorchModel_train e (w, s)))) = fixed_part s"
  "train_dataset (snd (snd (TorchModel_train e (w, s)))) = train_dataset s"
  "cms (snd (snd (TorchModel_train e (w, s)))) = cms s"
  "fit_log (fst (snd (TorchModel_train e (w, s)))) = fit_log w"
  "plots (fst (snd (TorchModel_train e (w, s)))) = plots w"
  "files (fst (snd (TorchModel_train e (w, s)))) = files w"
  "clock (fst (snd (TorchModel_train e (w, s)))) = clock w"
  using TorchModel_train_frame [of e w s] by (auto simp: fixed_part_def)

lemma test_keeps:
  "fixed_part (snd (snd (TorchModel_test e (w, s)))) = fixed_part s"
  "train_dataset (snd (snd (TorchModel_test e (w, s)))) = train_dataset s"
  "cms (snd (snd (TorchModel_test e (w, s)))) = cms s"
  "model (snd (snd (TorchModel_test e (w, s)))) = model s"
  "fst (snd (TorchModel_test e (w, s))) = w"
  using TorchModel_test_frame [of e w s] by (auto simp: fixed_part_def)

lemma save_keeps:
  "fixed_part (snd (snd (TorchModel_saveModel e (w, s)))) = fixed_part s"
  "train_dataset (snd (snd (TorchModel_saveModel e (w, s)))) = train_dataset s"
  "cms (snd (snd (TorchModel_saveModel e (w, s)))) = cms s"
  "cm (snd (snd (TorchModel_saveModel e (w, s)))) = cm s"
  "model (snd (snd (TorchModel_saveModel e (w, s)))) = model s"
  "fit_log (fst (snd (TorchModel_saveModel e (w, s)))) = fit_log w"
  "plots (fst (snd (TorchModel_saveModel e (w, s)))) = plots w"
  "rng (fst (snd (TorchModel_saveModel e (w, s)))) = rng w"
  using TorchModel_saveModel_frame [of e w s] by (auto simp: fixed_part_def)

lemma resampled_fixed:
  "fixed_part s1 = fixed_part s \<Longrightarrow> resampled e s1 r = resampled e s r"
  by (simp add: resampled_eq fixed_part_def)

lemma fixed_part_train_dataset [simp]:
  "fixed_part (s\<lparr>train_dataset := d\<rparr>) = fixed_part s"
  by (simp add: fixed_part_def)

lemma fixed_part_cms [simp]:
  "fixed_part (s\<lparr>cms := c\<rparr>) = fixed_part s"
  by (simp add: fixed_part_def)

lemma epoch_body_result:
  fixes s :: "('x, 'm, 'sc) TorchModel"
  obtains
    (train) "snd (epoch_body e (w, s)) = snd (TorchModel_train e (w, s))"
  | (test) w1 s1 where "snd (TorchModel_train e (w, s)) = (w1, s1)"
      "snd (epoch_body e (w, s))
         = snd (TorchModel_test e (w1\<lparr>rng := rng w1 + 1\<rparr>,
                  s1\<lparr>train_dataset := resampled e s1 (rng w1)\<rparr>))"
  | (save) w1 s1 cs where "snd (TorchModel_train e (w, s)) = (w1, s1)"
      "snd (epoch_body e (w, s))
         = (fst (snd (TorchModel_saveModel e
                   (snd (TorchModel_test e (w1\<lparr>rng := rng w1 + 1\<rparr>,
                      s1\<lparr>train_dataset := resampled e s1 (rng w1)\<rparr>))))),
            (snd (snd (TorchModel_saveModel e
                   (snd (TorchModel_test e (w1\<lparr>rng := rng w1 + 1\<rparr>,
                      s1\<lparr>train_dataset := resampled e s1 (rng w1)\<rparr>))))))\<lparr>cms := cs\<rparr>)"
proof -
  obtain o1 w1 s1 where tr: "TorchModel_train e (w, s) = (o1, w1, s1)"
    by (metis prod_cases3)
  let ?ws2 = "(w1\<lparr>rng := rng w1 + 1\<rparr>, s1\<lparr>train_dataset := resampled e s1 (rng w1)\<rparr>)"
  obtain o3 w3 s3 where te: "TorchModel_test e ?ws2 = (o3, w3, s3)"
    by (metis prod_cases3)
  obtain o4 w4 s4 where sv: "TorchModel_saveModel e (w3, s3) = (o4, w4, s4)"
    by (metis prod_cases3)
  show thesis
  proof (cases o1)
    case (Raised err)
    then have "epoch_body e (w, s) = (Raised err, w1, s1)"
      using tr by (simp add: epoch_body_train_Raised)
    then show ?thesis using tr by (intro train) simp
  next
    case (Returned x)
    note o1 = Returned
    show ?thesis
    proof (cases o3)
      case (Raised err)
      then have "epoch_body e (w, s) = (Raised err, w3, s3)"
        using tr te o1 by (simp add: epoch_body_test_Raised)
      then show ?thesis using tr te by (intro test [of w1 s1]) simp_all
    next
      case (Returned y)
      note o3 = Returned
      show ?thesis
      proof (cases o4)
        case (Raised err)
        then have "epoch_body e (w, s) = (Raised err, w4, s4)"
          using tr te sv o1 o3 epoch_body_save_Raised [of e "(w, s)" x w1 s1 y w3 s3 err w4 s4]
          by simp
        then have "snd (epoch_body e (w, s)) = (w4, s4\<lparr>cms := cms s4\<rparr>)" by simp
        then show ?thesis using tr te sv by (intro save [of w1 s1 "cms s4"]) simp_all
      next
        case (Returned z)
        then have eb: "epoch_body e (w, s)
            = (case (cms s4, cm s4) of
                 (Some recorded, Some c) \<Rightarrow>
                   (Returned PyNone, w4, s4\<lparr>cms := Some (recorded @ [c])\<rparr>)
               | _ \<Rightarrow> (Raised (AttributeError ''cms''), w4, s4))"
          using tr te sv o1 o3 epoch_body_save_Returned [of e "(w, s)" x w1 s1 y w3 s3 z w4 s4]
          by simp
        have "\<exists>cs. snd (epoch_body e (w, s)) = (w4, s4\<lparr>cms := cs\<rparr>)"
        proof (cases "cms s4")
          case None
          then have "snd (epoch_body e (w, s)) = (w4, s4\<lparr>cms := cms s4\<rparr>)"
            unfolding eb by simp
          then show ?thesis by blast
        next
          case (Some recorded)
          show ?thesis
          proof (cases "cm s4")
            case None
            then have "snd (epoch_body e (w, s)) = (w4, s4\<lparr>cms := cms s4\<rparr>)"
              unfolding eb using Some by simp
            then show ?thesis by blast
          next
            case (Some c)
            then have "snd (epoch_body e (w, s)) = (w4, s4\<lparr>cms := Some (recorded @ [c])\<rparr>)"
              unfolding eb using \<open>cms s4 = Some recorded\<close> by simp
            then show ?thesis by blast
          qed
        qed
        then obtain cs where "snd (epoch_body e (w, s)) = (w4, s4\<lparr>cms := cs\<rparr>)" by blast
        then show ?thesis using tr te sv by (intro save [of w1 s1 cs]) simp_all
      qed
    qed
  qed
qed

lemma epoch_body_keeps:
  fixes s :: "('x, 'm, 'sc) TorchModel"
  shows "fixed_part (snd (snd (epoch_body e (w, s)))) = fixed_part s
       \<and> fit_log (fst (snd (epoch_body e (w, s)))) = fit_log w
       \<and> plots (fst (snd (epoch_body e (w, s)))) = plots w
       \<and> (train_dataset (snd (snd (epoch_body e (w, s)))) = train_dataset s
           \<or> (\<exists>r. train_dataset (snd (snd (epoch_body e (w, s)))) = resampled e s r))"
proof (cases e w s rule: epoch_body_result)
  case train
  then show ?thesis by (simp add: train_keeps)
next
  case (test w1 s1)
  have s1: "s1 = snd (snd (TorchModel_train e (w, s)))"
    and w1: "w1 = fst (snd (TorchModel_train e (w, s)))"
    using test(1) by simp_all
  have f1: "fixed_part s1 = fixed_part s" unfolding s1 by (rule train_keeps)
  have rs: "resampled e s1 (rng w1) = resampled e s (rng w1)"
    using f1 by (rule resampled_fixed)
  show ?thesis
    unfolding test(2) using f1 rs
    by (auto simp: test_keeps w1 train_keeps)
next
  case (save w1 s1 cs)
  have s1: "s1 = snd (snd (TorchModel_train e (w, s)))"
    and w1: "w1 = fst (snd (TorchModel_train e (w, s)))"
    using save(1) by simp_all
  have f1: "fixed_part s1 = fixed_part s" unfolding s1 by (rule train_keeps)
  have rs: "resampled e s1 (rng w1) = resampled e s (rng w1)"
    using f1 by (rule resampled_fixed)
  obtain w3 s3 where te: "snd (TorchModel_test e (w1\<lparr>rng := rng w1 + 1\<rparr>,
      s1\<lparr>train_dataset := resampled e s1 (rng w1)\<rparr>)) = (w3, s3)"
    by (metis surj_pair)
  have w3: "w3 = w1\<lparr>rng := rng w1 + 1\<rparr>"
    using te test_keeps(5) [of e "w1\<lparr>rng := rng w1 + 1\<rparr>"
        "s1\<lparr>train_dataset := resampled e s1 (rng w1)\<rparr>"] by simp
  have f3: "fixed_part s3 = fixed_part s"
    using te test_keeps(1) [of e "w1\<lparr>rng := rng w1 + 1\<rparr>"
        "s1\<lparr>train_dataset := resampled e s1 (rng w1)\<rparr>"] f1 by simp
  have d3: "train_dataset s3 = resampled e s (rng w1)"
    using te test_keeps(2) [of e "w1\<lparr>rng := rng w1 + 1\<rparr>"
        "s1\<lparr>train_dataset := resampled e s1 (rng w1)\<rparr>"] rs by simp
  show ?thesis
    unfolding save(2) te using f3 d3
    by (auto simp: save_keeps w3 w1 train_keeps)
qed

subsection \<open>The whole loop\<close>

lemma epoch_loop_keeps:
  fixes s :: "('x, 'm, 'sc) TorchModel"
  shows "fixed_part (snd (snd (epoch_loop e n (w, s)))) = fixed_part s
       \<and> fit_log (fst (snd (epoch_loop e n (w, s)))) = fit_log w
       \<and> plots (fst (snd (epoch_loop e n (w, s)))) = plots w
       \<and> (train_dataset (snd (snd (epoch_loop e n (w, s)))) = train_dataset s
           \<or> (\<exists>r. train_dataset (snd (snd (epoch_loop e n (w, s)))) = resampled e s r))"
proof (induction n arbitrary: w s)
  case 0
  show ?case by simp
next
  case (Suc n)
  obtain o1 w1 s1 where eb: "epoch_body e (w, s) = (o1, w1, s1)" by (metis prod_cases3)
  have k: "fixed_part s1 = fixed_part s" "fit_log w1 = fit_log w" "plots w1 = plots w"
    "train_dataset s1 = train_dataset s \<or> (\<exists>r. train_dataset s1 = resampled e s r)"
    using epoch_body_keeps [of e w s] eb by simp_all
  show ?case
  proof (cases o1)
    case (Raised err)
    then have "epoch_loop e (Suc n) (w, s) = (Raised err, w1, s1)" using eb by simp
    then show ?thesis using k by simp
  next
    case (Returned x)
    then have "epoch_loop e (Suc n) (w, s) = epoch_loop e n (w1, s1)" using eb by simp
    moreover have "\<And>r. resampled e s1 r = resampled e s r"
      using k(1) by (rule resampled_fixed)
    ultimately show ?thesis using Suc.IH [of w1 s1] k by auto
  qed
qed

lemma commenceTraining_result:
  fixes s :: "('x, 'm, 'sc) TorchModel"
  obtains
    (no_epochs) "snd (TorchModel_commenceTraining e (w, s)) = (w, s\<lparr>cms := Some []\<rparr>)"
  | (loop) n pl where "epochs s = Some n"
      "snd (TorchModel_commenceTraining e (w, s))
         = ((fst (snd (epoch_loop e (nat n) (w, s\<lparr>cms := Some []\<rparr>))))\<lparr>plots := pl\<rparr>,
            snd (snd (epoch_loop e (nat n) (w, s\<lparr>cms := Some []\<rparr>))))"
      "pl = plots w \<or> (\<exists>recorded ts. pl = plots w @ [(recorded, ts)])"
proof (cases "epochs s")
  case None
  then have "snd (TorchModel_commenceTraining e (w, s)) = (w, s\<lparr>cms := Some []\<rparr>)"
    by (simp add: TorchModel_commenceTraining_def Let_def)
  then show ?thesis by (rule no_epochs)
next
  case (Some n)
  obtain o1 w1 s1 where el: "epoch_loop e (nat n) (w, s\<lparr>cms := Some []\<rparr>) = (o1, w1, s1)"
    by (metis prod_cases3)
  have pw: "plots w1 = plots w"
    using epoch_loop_keeps [of e "nat n" w "s\<lparr>cms := Some []\<rparr>"] el by simp
  have "\<exists>pl. snd (TorchModel_commenceTraining e (w, s)) = (w1\<lparr>plots := pl\<rparr>, s1)
      \<and> (pl = plots w \<or> (\<exists>recorded ts. pl = plots w @ [(recorded, ts)]))"
  proof (cases o1)
    case (Raised err)
    then have "snd (TorchModel_commenceTraining e (w, s)) = (w1\<lparr>plots := plots w1\<rparr>, s1)"
      using Some el by (simp add: TorchModel_commenceTraining_def Let_def)
    then show ?thesis using pw by auto
  next
    case (Returned x)
    note o1 = Returned
    show ?thesis
    proof (cases "cms s1")
      case None
      then have "snd (TorchModel_commenceTraining e (w, s)) = (w1\<lparr>plots := plots w1\<rparr>, s1)"
        using Some el o1 by (simp add: TorchModel_commenceTraining_def Let_def)
      then show ?thesis using pw by auto
    next
      case (Some recorded)
      show ?thesis
      proof (cases "titles s1")
        case None
        then have "snd (TorchModel_commenceTraining e (w, s)) = (w1\<lparr>plots := plots w1\<rparr>, s1)"
          using \<open>epochs s = Some n\<close> el o1 Some
          by (simp add: TorchModel_commenceTraining_def Let_def)
        then show ?thesis using pw by auto
      next
        case (Some ts)
        then have "snd (TorchModel_commenceTraining e (w, s))
            = (w1\<lparr>plots := plots w1 @ [(recorded, ts)]\<rparr>, s1)"
          using \<open>epochs s = Some n\<close> el o1 \<open>cms s1 = Some recorded\<close>
          by (simp add: TorchModel_commenceTraining_def Let_def)
        then show ?thesis using pw by auto
      qed
    qed
  qed
  then obtain pl where "snd (TorchModel_commenceTraining e (w, s)) = (w1\<lparr>plots := pl\<rparr>, s1)"
    "pl = plots w \<or> (\<exists>recorded ts. pl = plots w @ [(recorded, ts)])" by blast
  then show ?thesis using Some el by (intro loop [of n pl]) simp_all
qed

lemma commenceTraining_keeps:
  fixes s :: "('x, 'm, 'sc) TorchModel"
  shows "fixed_part (snd (snd (TorchModel_commenceTraining e (w, s)))) = fixed_part s
       \<and> fit_log (fst (snd (TorchModel_commenceTraining e (w, s)))) = fit_log w
       \<and> (train_dataset (snd (snd (TorchModel_commenceTraining e (w, s)))) = train_dataset s
           \<or> (\<exists>r. train_dataset (snd (snd (TorchModel_commenceTraining e (w, s))))
                  = resampled e s r))"
proof (cases e w s rule: commenceTraining_result)
  case no_epochs
  then show ?thesis by simp
next
  case (loop n pl)
  have "\<And>r. resampled e (s\<lparr>cms := Some []\<rparr>) r = resampled e s r"
    by (rule resampled_fixed) simp
  then show ?thesis
    unfolding loop(2) using epoch_loop_keeps [of e "nat n" w "s\<lparr>cms := Some []\<rparr>"]
    by auto
qed

subsection \<open>The scaler\<close>

lemma SklearnModel_train_frame:
  "\<exists>m. snd (SklearnModel_train e (v, k)) = (v, k\<lparr>model := m\<rparr>)"
proof (cases "model k")
  case None
  then have "snd (SklearnModel_train e (v, k)) = (v, k\<lparr>model := model k\<rparr>)"
    by (simp add: SklearnModel_train_def)
  then show ?thesis by blast
next
  case (Some m)
  then have "snd (SklearnModel_train e (v, k))
      = (v, k\<lparr>model := Some (fit e m (X_train k) (y_train k))\<rparr>)"
    by (simp add: SklearnModel_train_def)
  then show ?thesis by blast
qed

lemma SklearnModel_test_frame:
  "\<exists>yp c a. snd (SklearnModel_test e (v, k)) = (v, k\<lparr>y_pred := yp, cm := c, accuracy := a\<rparr>)"
proof (cases "sk_predictions e k")
  case (Raised err)
  then have "snd (SklearnModel_test e (v, k))
      = (v, k\<lparr>y_pred := y_pred k, cm := cm k, accuracy := accuracy k\<rparr>)"
    by (simp add: SklearnModel_test_def)
  then show ?thesis by blast
next
  case (Returned yp)
  note yp = Returned
  show ?thesis
  proof (cases "confusion_matrix (y_test k) yp")
    case (Raised err)
    then have "snd (SklearnModel_test e (v, k))
        = (v, k\<lparr>y_pred := Some yp, cm := cm k, accuracy := accuracy k\<rparr>)"
      using yp by (simp add: SklearnModel_test_def Let_def)
    then show ?thesis by blast
  next
    case (Returned c)
    note c = Returned
    show ?thesis
    proof (cases "accuracy_of c")
      case (Raised err)
      then have "snd (SklearnModel_test e (v, k))
          = (v, k\<lparr>y_pred := Some yp, cm := Some c, accuracy := accuracy k\<rparr>)"
        using yp c by (simp add: SklearnModel_test_def Let_def)
      then show ?thesis by blast
    next
      case (Returned a)
      then have "snd (SklearnModel_test e (v, k))
          = (v, k\<lparr>y_pred := Some yp, cm := Some c, accuracy := Some a\<rparr>)"
        using yp c by (simp add: SklearnModel_test_def Let_def)
      then show ?thesis by blast
    qed
  qed
qed

lemma SklearnModel_commenceTraining_keeps:
  fixes k :: "('x, 'm, 'sc) SklearnModel"
  shows "scalar (snd (snd (SklearnModel_commenceTraining e (v, k)))) = scalar k
       \<and> test_dataset (snd (snd (SklearnModel_commenceTraining e (v, k)))) = test_dataset k
       \<and> X_test (snd (snd (SklearnModel_commenceTraining e (v, k)))) = X_test k
       \<and> fit_log (fst (snd (SklearnModel_commenceTraining e (v, k)))) = fit_log v"
proof -
  obtain o1 v1 k1 where tr: "SklearnModel_train e (v, k) = (o1, v1, k1)"
    by (metis prod_cases3)
  obtain m where f1: "v1 = v" "k1 = k\<lparr>model := m\<rparr>"
    using SklearnModel_train_frame [of e v k] tr by auto
  obtain o2 v2 k2 where te: "SklearnModel_test e (v1, k1) = (o2, v2, k2)"
    by (metis prod_cases3)
  obtain yp c a where f2: "v2 = v1" "k2 = k1\<lparr>y_pred := yp, cm := c, accuracy := a\<rparr>"
    using SklearnModel_test_frame [of e v1 k1] te by auto
  show ?thesis
  proof (cases o1)
    case (Raised err)
    then have "SklearnModel_commenceTraining e (v, k) = (Raised err, v1, k1)"
      using tr by (simp add: SklearnModel_commenceTraining_def)
    then show ?thesis using f1 by simp
  next
    case (Returned x)
    note o1 = Returned
    show ?thesis
    proof (cases o2)
      case (Raised err)
      then have "SklearnModel_commenceTraining e (v, k) = (Raised err, v2, k2)"
        using tr te o1 by (simp add: SklearnModel_commenceTraining_def)
      then show ?thesis using f1 f2 by simp
    next
      case (Returned y)
      have "\<exists>ot pl. SklearnModel_commenceTraining e (v, k) = (ot, v2\<lparr>plots := pl\<rparr>, k2)"
      proof (cases "\<exists>a2 c2 ts. accuracy k2 = Some a2 \<and> cm k2 = Some c2 \<and> titles k2 = Some ts")
        case True
        then obtain a2 c2 ts where "accuracy k2 = Some a2" "cm k2 = Some c2" "titles k2 = Some ts"
          by blast
        then have "SklearnModel_commenceTraining e (v, k)
            = (Returned PyNone, v2\<lparr>plots := plots v2 @ [([c2], ts)]\<rparr>, k2)"
          using tr te o1 Returned by (simp add: SklearnModel_commenceTraining_def)
        then show ?thesis by blast
      next
        case False
        then have "SklearnModel_commenceTraining e (v, k)
            = (Raised (AttributeError ''accuracy''), v2\<lparr>plots := plots v2\<rparr>, k2)"
          using tr te o1 Returned
          by (auto simp add: SklearnModel_commenceTraining_def split: option.splits)
        then show ?thesis by blast
      qed
      then show ?thesis using f1 f2 by auto
    qed
  qed
qed

lemma TorchModel_init_Returned:
  assumes "0 < bs"
  shows "TorchModel_init e w trf tef bs thr
     = (w\<lparr>rng := rng w + 1,
          fit_log := fit_log w @ [map fst (undersample_rows e (rng w) (read_csv e trf))]\<rparr>,
        Returned
          \<lparr>train_file = trf,
           train_dataset = snd (DatasetReader_new e w trf True None),
           scalar = fit_scaler e (map fst (undersample_rows e (rng w) (read_csv e trf))),
           test_dataset =
             \<lparr>features = map (transform e
                  (fit_scaler e (map fst (undersample_rows e (rng w) (read_csv e trf)))))
                  (map fst (read_csv e tef)),
              target = map snd (read_csv e tef),
              getScalar = fit_scaler e (map fst (undersample_rows e (rng w) (read_csv e trf)))\<rparr>,
           threshold = thr, model = None, model_type = None, titles = None,
           y_pred = None, cm = None, accuracy = None, timestamp = None, file_name = None,
           batch_size = bs, epochs = None, running_loss = None, train_loss = None,
           cms = None, to_save = None\<rparr>)"
  using assms
  by (simp add: TorchModel_init_def DatasetReader_new_fit DatasetReader_new_test Let_def)

lemma TorchModel_init_Raised:
  assumes "\<not> 0 < bs"
  shows "TorchModel_init e w trf tef bs thr
     = (w\<lparr>rng := rng w + 1,
          fit_log := fit_log w @ [map fst (undersample_rows e (rng w) (read_csv e trf))]\<rparr>,
        Raised (ValueError ''batch_size should be a positive integer value''))"
  using assms
  by (simp add: TorchModel_init_def DatasetReader_new_fit Let_def)

lemma SklearnModel_init_eq:
  "SklearnModel_init e w trf tef thr
     = (w\<lparr>rng := rng w + 1,
          fit_log := fit_log w @ [map fst (undersample_rows e (rng w) (read_csv e trf))]\<rparr>,
        \<lparr>train_file = trf,
         train_dataset = snd (DatasetReader_new e w trf True None),
         scalar = fit_scaler e (map fst (undersample_rows e (rng w) (read_csv e trf))),
         test_dataset =
           \<lparr>features = map (transform e
                (fit_scaler e (map fst (undersample_rows e (rng w) (read_csv e trf)))))
                (map fst (read_csv e tef)),
            target = map snd (read_csv e tef),
            getScalar = fit_scaler e (map fst (undersample_rows e (rng w) (read_csv e trf)))\<rparr>,
         threshold = thr, model = None, model_type = None, titles = Some [''Model Training''],
         y_pred = None, cm = None, accuracy = None, timestamp = None, file_name = None,
         test_file = tef,
         X_train = features (snd (DatasetReader_new e w trf True None)),
         y_train = target (snd (DatasetReader_new e w trf True None)),
         X_test = map (transform e
                (fit_scaler e (map fst (undersample_rows e (rng w) (read_csv e trf)))))
                (map fst (read_csv e tef)),
         y_test = map snd (read_csv e tef),
         supervised = True\<rparr>)"
  by (simp add: SklearnModel_init_def DatasetReader_new_fit DatasetReader_new_test Let_def)

end
